theory Spec2Isabelle
  imports Complex_Main "HOL-Library.Log_Nat" "HOL-Library.AList" "HOL-Library.Sublist"
begin

section \<open>The values of the runtime\<close>

subsection \<open>Numbers\<close>

text \<open>
  A JavaScript number is an IEEE 754 binary64 value: \<open>NaN\<close>, the two infinities, the
  negative zero, or a finite value, kept here as the rational it denotes (\<open>Fin 0\<close> is
  the positive zero). Every arithmetic result is rounded to the nearest binary64 value,
  ties to even, by \<open>fl\<close>.
\<close>

datatype jsnum = NaN | PosInf | NegInf | NegZero | Fin rat

definition pow2 :: "int \<Rightarrow> rat" where
  "pow2 k = (if 0 \<le> k then 2 ^ nat k else 1 / 2 ^ nat (- k))"

definition pow10 :: "int \<Rightarrow> rat" where
  "pow10 k = (if 0 \<le> k then 10 ^ nat k else 1 / 10 ^ nat (- k))"

text \<open>\<open>ilog2 a\<close> is the binary exponent of a positive rational: \<open>2 ^ ilog2 a \<le> a < 2 ^ (ilog2 a + 1)\<close>.\<close>

definition ilog2 :: "rat \<Rightarrow> int" where
  "ilog2 a =
     (let k = bitlen (fst (quotient_of a)) - bitlen (snd (quotient_of a))
      in if pow2 k \<le> a then k else k - 1)"

definition round_half_even :: "rat \<Rightarrow> int" where
  "round_half_even x =
     (let f = \<lfloor>x\<rfloor>; r = x - of_int f
      in if r < 1 / 2 then f else if 1 / 2 < r then f + 1 else if even f then f else f + 1)"

text \<open>
  Rounding to binary64: the value is \<open>m * 2 ^ e\<close> with a significand \<open>m\<close> of at most 53
  bits and \<open>e\<close> at least \<open>-1074\<close> (subnormals); it overflows to an infinity from
  \<open>2 ^ 1024\<close> on and underflows to a zero of the same sign.
\<close>

definition fl :: "rat \<Rightarrow> jsnum" where
  "fl q =
     (if q = 0 then Fin 0
      else let a = \<bar>q\<bar>;
               e = max (ilog2 a - 52) (- 1074);
               m = round_half_even (a / pow2 e)
           in if 971 < e \<or> (e = 971 \<and> 2 ^ 53 \<le> m) then (if 0 < q then PosInf else NegInf)
              else if m = 0 then (if 0 < q then Fin 0 else NegZero)
              else Fin (if 0 < q then of_int m * pow2 e else - (of_int m * pow2 e)))"

text \<open>The sign of a number that is not \<open>NaN\<close>, and the rational value of a finite one.\<close>

fun negative :: "jsnum \<Rightarrow> bool" where
  "negative NegInf = True"
| "negative NegZero = True"
| "negative (Fin x) = (x < 0)"
| "negative _ = False"

fun val :: "jsnum \<Rightarrow> rat" where
  "val (Fin x) = x"
| "val _ = 0"

fun is_infinity :: "jsnum \<Rightarrow> bool" where
  "is_infinity PosInf = True"
| "is_infinity NegInf = True"
| "is_infinity _ = False"

text \<open>The operator \<open>*\<close> on numbers.\<close>

definition js_mul :: "jsnum \<Rightarrow> jsnum \<Rightarrow> jsnum" where
  "js_mul a b =
     (if a = NaN \<or> b = NaN then NaN
      else if is_infinity a \<or> is_infinity b then
        (if (\<not> is_infinity a \<and> val a = 0) \<or> (\<not> is_infinity b \<and> val b = 0) then NaN
         else if negative a = negative b then PosInf else NegInf)
      else if val a * val b = 0 then (if negative a = negative b then Fin 0 else NegZero)
      else fl (val a * val b))"

text \<open>The operator \<open>-\<close> on numbers.\<close>

definition js_sub :: "jsnum \<Rightarrow> jsnum \<Rightarrow> jsnum" where
  "js_sub a b =
     (if a = NaN \<or> b = NaN then NaN
      else if is_infinity a then (if is_infinity b \<and> negative a = negative b then NaN else a)
      else if is_infinity b then (if negative b then PosInf else NegInf)
      else if val a - val b = 0 then (if a = NegZero \<and> b = Fin 0 then NegZero else Fin 0)
      else fl (val a - val b))"

text \<open>
  \<open>Math.round\<close>: the nearest integer, a tie going up; a result of zero keeps the sign of
  the argument. \<open>Math.max\<close> of two numbers: \<open>NaN\<close> if either is, and the positive zero
  is larger than the negative one.
\<close>

fun Math_round :: "jsnum \<Rightarrow> jsnum" where
  "Math_round (Fin x) =
     (let r = \<lfloor>x + 1 / 2\<rfloor> in if r = 0 \<and> x < 0 then NegZero else Fin (of_int r))"
| "Math_round n = n"

definition Math_max :: "jsnum \<Rightarrow> jsnum \<Rightarrow> jsnum" where
  "Math_max a b =
     (if a = NaN \<or> b = NaN then NaN
      else if a = PosInf \<or> b = PosInf then PosInf
      else if a = NegInf then b
      else if b = NegInf then a
      else if val a < val b then b
      else if val b < val a then a
      else if a = NegZero then b else a)"

subsection \<open>Strings\<close>

text \<open>
  A JavaScript string is a sequence of UTF-16 code units. \<open>lit\<close> turns an ASCII literal
  of the source into its code units; text outside ASCII is written as the list of its
  code units.
\<close>

type_synonym jsstring = "nat list"

definition lit :: "string \<Rightarrow> jsstring" where
  "lit cs = map of_char cs"

text \<open>White space and line terminators of the language, as code units.\<close>

definition is_white_space :: "nat \<Rightarrow> bool" where
  "is_white_space u \<longleftrightarrow>
     (9 \<le> u \<and> u \<le> 13) \<or> u = 32 \<or> u = 0xA0 \<or> u = 0x1680 \<or> (0x2000 \<le> u \<and> u \<le> 0x200A)
     \<or> u = 0x2028 \<or> u = 0x2029 \<or> u = 0x202F \<or> u = 0x205F \<or> u = 0x3000 \<or> u = 0xFEFF"

definition trim :: "jsstring \<Rightarrow> jsstring" where
  "trim s = rev (dropWhile is_white_space (rev (dropWhile is_white_space s)))"

definition startsWith :: "jsstring \<Rightarrow> jsstring \<Rightarrow> bool" where
  "startsWith s p = prefix p s"

fun includes_js :: "jsstring \<Rightarrow> jsstring \<Rightarrow> bool" where
  "includes_js [] needle = (needle = [])"
| "includes_js (u # us) needle = (prefix needle (u # us) \<or> includes_js us needle)"

text \<open>\<open>split_comma s\<close> is \<open>s.split(",")\<close>: the pieces between the commas, never empty as a list.\<close>

fun split_comma :: "jsstring \<Rightarrow> jsstring list" where
  "split_comma [] = [[]]"
| "split_comma (u # us) =
     (if u = 44 then [] # split_comma us
      else (case split_comma us of p # ps \<Rightarrow> (u # p) # ps | [] \<Rightarrow> [[u]]))"

subsection \<open>Text to number\<close>

definition is_digit :: "nat \<Rightarrow> bool" where
  "is_digit u \<longleftrightarrow> 48 \<le> u \<and> u \<le> 57"

text \<open>The value of a digit in a base up to 16, if it is one: \<open>0-9\<close>, \<open>a-f\<close>, \<open>A-F\<close>.\<close>

definition digit_in :: "nat \<Rightarrow> nat \<Rightarrow> nat option" where
  "digit_in base u =
     (let d = (if 48 \<le> u \<and> u \<le> 57 then Some (u - 48)
               else if 97 \<le> u \<and> u \<le> 102 then Some (u - 87)
               else if 65 \<le> u \<and> u \<le> 70 then Some (u - 55)
               else None)
      in case d of Some n \<Rightarrow> (if n < base then Some n else None) | None \<Rightarrow> None)"

fun digits_in :: "nat \<Rightarrow> int \<Rightarrow> jsstring \<Rightarrow> int option" where
  "digits_in base acc [] = Some acc"
| "digits_in base acc (u # us) =
     (case digit_in base u of
        Some n \<Rightarrow> digits_in base (acc * int base + int n) us
      | None \<Rightarrow> None)"

text \<open>One or more digits of the base, and nothing else.\<close>

definition integer_in :: "nat \<Rightarrow> jsstring \<Rightarrow> int option" where
  "integer_in base s = (if s = [] then None else digits_in base 0 s)"

text \<open>The exponent part of a decimal literal: nothing, or \<open>e\<close> or \<open>E\<close>, a sign, digits.\<close>

definition exponent_part :: "jsstring \<Rightarrow> int option" where
  "exponent_part s =
     (case s of
        [] \<Rightarrow> Some 0
      | u # us \<Rightarrow>
          if u = 101 \<or> u = 69 then
            (case us of
               [] \<Rightarrow> None
             | v # vs \<Rightarrow>
                 if v = 43 then integer_in 10 vs
                 else if v = 45 then map_option uminus (integer_in 10 vs)
                 else integer_in 10 us)
          else None)"

text \<open>
  An unsigned decimal literal: \<open>Infinity\<close>, or digits with an optional fraction and
  exponent (\<open>12\<close>, \<open>12.\<close>, \<open>12.5\<close>, \<open>.5\<close>, \<open>1e3\<close>). The result is the exact value, or
  \<open>None\<close> for the infinity; the outer \<open>None\<close> says that the text is not a literal.
\<close>

definition decimal_literal :: "jsstring \<Rightarrow> rat option option" where
  "decimal_literal s =
     (if s = lit ''Infinity'' then Some None
      else let ip = takeWhile is_digit s; r1 = dropWhile is_digit s;
               dot = (r1 \<noteq> [] \<and> hd r1 = 46);
               fp = (if dot then takeWhile is_digit (tl r1) else []);
               r2 = (if dot then dropWhile is_digit (tl r1) else r1)
           in if ip = [] \<and> fp = [] then None
              else (case (digits_in 10 0 (ip @ fp), exponent_part r2) of
                      (Some m, Some e) \<Rightarrow> Some (Some (of_int m * pow10 (e - int (length fp))))
                    | _ \<Rightarrow> None))"

text \<open>\<open>0x\<close>, \<open>0o\<close> and \<open>0b\<close> literals, in either case of the letter.\<close>

definition non_decimal_literal :: "jsstring \<Rightarrow> int option" where
  "non_decimal_literal s =
     (case s of
        u # v # ds \<Rightarrow>
          if u = 48 \<and> (v = 120 \<or> v = 88) then integer_in 16 ds
          else if u = 48 \<and> (v = 111 \<or> v = 79) then integer_in 8 ds
          else if u = 48 \<and> (v = 98 \<or> v = 66) then integer_in 2 ds
          else None
      | _ \<Rightarrow> None)"

text \<open>
  The conversion of a string to a number: white space around the literal is dropped, the
  empty text is \<open>0\<close>, a decimal literal may carry a sign, and anything else is \<open>NaN\<close>.
\<close>

definition signed :: "bool \<Rightarrow> rat option \<Rightarrow> jsnum" where
  "signed neg v =
     (case v of
        None \<Rightarrow> (if neg then NegInf else PosInf)
      | Some q \<Rightarrow> (if q = 0 then (if neg then NegZero else Fin 0) else fl (if neg then - q else q)))"

definition StringToNumber :: "jsstring \<Rightarrow> jsnum" where
  "StringToNumber s =
     (let t = trim s
      in if t = [] then Fin 0
         else (case non_decimal_literal t of
                 Some n \<Rightarrow> fl (of_int n)
               | None \<Rightarrow>
                   (let neg = (hd t = 45);
                        body = (if hd t = 45 \<or> hd t = 43 then tl t else t)
                    in case decimal_literal body of
                         Some v \<Rightarrow> signed neg v
                       | None \<Rightarrow> NaN)))"

subsection \<open>Values\<close>

text \<open>
  The values that JSON text can denote, and \<open>undefined\<close>. An object is the list of its
  own properties, in their order.
\<close>

datatype jsval =
    Undefined
  | Null
  | Bool bool
  | Num jsnum
  | Str jsstring
  | Arr "jsval list"
  | Obj "(jsstring \<times> jsval) list"

text \<open>What the program can throw: an \<open>Error\<close> made with \<open>new Error(message)\<close>, a
  \<open>TypeError\<close> of the runtime, or any value raised by a collaborator.\<close>

datatype thrown = Error jsstring | TypeError | Raised jsval

definition and_then :: "thrown + 'a \<Rightarrow> ('a \<Rightarrow> thrown + 'b) \<Rightarrow> thrown + 'b" where
  "and_then r f = (case r of Inl e \<Rightarrow> Inl e | Inr x \<Rightarrow> f x)"

text \<open>Truthiness, and the operator \<open>||\<close>, which gives its left operand when that is truthy.\<close>

fun ToBoolean :: "jsval \<Rightarrow> bool" where
  "ToBoolean Undefined = False"
| "ToBoolean Null = False"
| "ToBoolean (Bool b) = b"
| "ToBoolean (Num n) = (n \<noteq> NaN \<and> n \<noteq> NegZero \<and> n \<noteq> Fin 0)"
| "ToBoolean (Str s) = (s \<noteq> [])"
| "ToBoolean (Arr xs) = True"
| "ToBoolean (Obj kvs) = True"

definition js_or :: "jsval \<Rightarrow> jsval \<Rightarrow> jsval" where
  "js_or a b = (if ToBoolean a then a else b)"

text \<open>
  Reading a property. The names this service reads are no index, not \<open>length\<close> and no
  member of a prototype, so a value that is not an object has none of them; reading a
  property of \<open>null\<close> or \<open>undefined\<close> raises.
\<close>

fun get :: "jsval \<Rightarrow> jsstring \<Rightarrow> jsval" where
  "get (Obj kvs) k = (case map_of kvs k of Some v \<Rightarrow> v | None \<Rightarrow> Undefined)"
| "get v k = Undefined"

definition nullish :: "jsval \<Rightarrow> bool" where
  "nullish v \<longleftrightarrow> v = Null \<or> v = Undefined"

definition getProp :: "jsval \<Rightarrow> jsstring \<Rightarrow> thrown + jsval" where
  "getProp v k = (if nullish v then Inl TypeError else Inr (get v k))"

text \<open>
  Conversion to a number goes through the text of an array or object. An object prints
  as \<open>[object Object]\<close>, unless it has an own property \<open>toString\<close>: parsed JSON never
  holds a function, so that property hides the inherited method and the conversion
  raises a \<open>TypeError\<close>. An array prints its elements joined by commas, so it raises
  when an element does.
\<close>

fun no_primitive :: "jsval \<Rightarrow> bool" where
  "no_primitive (Obj kvs) = (map_of kvs (lit ''toString'') \<noteq> None)"
| "no_primitive (Arr xs) = list_ex no_primitive xs"
| "no_primitive v = False"

text \<open>A value with a property \<open>toString\<close> somewhere inside.\<close>

fun has_toString :: "jsval \<Rightarrow> bool" where
  "has_toString (Obj kvs) =
     (map_of kvs (lit ''toString'') \<noteq> None \<or> list_ex (\<lambda>p. has_toString (snd p)) kvs)"
| "has_toString (Arr xs) = list_ex has_toString xs"
| "has_toString v = False"

text \<open>
  The number of a value that converts. The text of an array with two or more elements
  has a comma and is no number; the text of a one-element array is the text of the
  element, empty for \<open>null\<close> and \<open>undefined\<close>, and the text of a number reads back as
  that number (the negative zero prints as \<open>0\<close>).
\<close>

fun number_of :: "jsval \<Rightarrow> jsnum" where
  "number_of Undefined = NaN"
| "number_of Null = Fin 0"
| "number_of (Bool b) = (if b then Fin 1 else Fin 0)"
| "number_of (Num n) = n"
| "number_of (Str s) = StringToNumber s"
| "number_of (Obj kvs) = NaN"
| "number_of (Arr []) = Fin 0"
| "number_of (Arr [Undefined]) = Fin 0"
| "number_of (Arr [Null]) = Fin 0"
| "number_of (Arr [Bool b]) = NaN"
| "number_of (Arr [Num n]) = (if n = NegZero then Fin 0 else n)"
| "number_of (Arr [Str s]) = StringToNumber s"
| "number_of (Arr [Obj kvs]) = NaN"
| "number_of (Arr [Arr xs]) = number_of (Arr xs)"
| "number_of (Arr (x # y # zs)) = NaN"

definition ToNumber :: "jsval \<Rightarrow> thrown + jsnum" where
  "ToNumber v = (if no_primitive v then Inl TypeError else Inr (number_of v))"

text \<open>\<open>Number(v)\<close>, where the conversion does not raise.\<close>

definition Number :: "jsval \<Rightarrow> jsval" where
  "Number v = Num (number_of v)"

text \<open>
  Object spread \<open>{ ...v }\<close> copies the own enumerable properties: those of an object,
  the elements of an array and the code units of a string under their indices, and
  nothing for the other values. An assignment \<open>o.k = v\<close> replaces the property or adds
  it at the end.
\<close>

fun decimal :: "nat \<Rightarrow> jsstring" where
  "decimal n = (if n < 10 then [48 + n] else decimal (n div 10) @ [48 + n mod 10])"

fun spread :: "jsval \<Rightarrow> jsval" where
  "spread (Obj kvs) = Obj kvs"
| "spread (Arr xs) = Obj (zip (map decimal [0..<length xs]) xs)"
| "spread (Str s) = Obj (zip (map decimal [0..<length s]) (map (\<lambda>u. Str [u]) s))"
| "spread v = Obj []"

fun assign :: "jsval \<Rightarrow> jsstring \<Rightarrow> jsval \<Rightarrow> jsval" where
  "assign (Obj kvs) k v = Obj (AList.update k v kvs)"
| "assign w k v = w"

text \<open>
  The operator \<open>===\<close>. Two numbers are equal when neither is \<open>NaN\<close> and they are the
  same or both zero. The model has no references: two reads of one property give the
  same array or object, and equal values stand for it.
\<close>

fun strict_equals :: "jsval \<Rightarrow> jsval \<Rightarrow> bool" where
  "strict_equals (Num a) (Num b) =
     (a \<noteq> NaN \<and> b \<noteq> NaN \<and> (a = b \<or> (a \<in> {Fin 0, NegZero} \<and> b \<in> {Fin 0, NegZero})))"
| "strict_equals v w = (v = w)"

text \<open>A number that is not \<open>NaN\<close>.\<close>

fun valid_number :: "jsval \<Rightarrow> bool" where
  "valid_number (Num n) = (n \<noteq> NaN)"
| "valid_number v = False"

section \<open>The analysis service\<close>

text \<open>
  The functions of \<open>OpenAIService\<close> in \<open>server/src/services/openai.ts\<close>. Console output
  is left out; a promise that resolves is \<open>Inr\<close> and one that rejects is \<open>Inl\<close>.
\<close>

subsection \<open>Normalising a parsed response\<close>

text \<open>The fields that \<open>normalizeAnalysisResponse\<close> passes to \<open>Number\<close>.\<close>

definition Number_arguments :: "string list" where
  "Number_arguments =
     [''calories'', ''protein'', ''carbs'', ''fat'', ''fiber'', ''sugar'', ''sodium'',
      ''saturated_fats_g'', ''polyunsaturated_fats_g'', ''monounsaturated_fats_g'',
      ''omega_3_g'', ''omega_6_g'', ''soluble_fiber_g'', ''insoluble_fiber_g'',
      ''cholesterol_mg'', ''alcohol_g'', ''caffeine_mg'', ''liquids_ml'', ''serving_size_g'',
      ''glycemic_index'', ''insulin_index'', ''confidence'']"

text \<open>The object literal that \<open>normalizeAnalysisResponse\<close> returns.\<close>

definition normalized :: "jsval \<Rightarrow> jsval" where
  "normalized analysis =
     Obj
       [(lit ''name'', js_or (get analysis (lit ''name'')) (Str (lit ''Unknown Meal''))),
        (lit ''description'', js_or (get analysis (lit ''description'')) (Str [])),
        (lit ''calories'', js_or (Number (get analysis (lit ''calories''))) (Num (Fin 0))),
        (lit ''protein'', js_or (Number (get analysis (lit ''protein''))) (Num (Fin 0))),
        (lit ''carbs'', js_or (Number (get analysis (lit ''carbs''))) (Num (Fin 0))),
        (lit ''fat'', js_or (Number (get analysis (lit ''fat''))) (Num (Fin 0))),
        (lit ''fiber'', js_or (Number (get analysis (lit ''fiber''))) (Num (Fin 0))),
        (lit ''sugar'', js_or (Number (get analysis (lit ''sugar''))) (Num (Fin 0))),
        (lit ''sodium'', js_or (Number (get analysis (lit ''sodium''))) (Num (Fin 0))),
        (lit ''saturated_fats_g'',
           js_or (Number (get analysis (lit ''saturated_fats_g''))) (Num (Fin 0))),
        (lit ''polyunsaturated_fats_g'',
           js_or (Number (get analysis (lit ''polyunsaturated_fats_g''))) (Num (Fin 0))),
        (lit ''monounsaturated_fats_g'',
           js_or (Number (get analysis (lit ''monounsaturated_fats_g''))) (Num (Fin 0))),
        (lit ''omega_3_g'', js_or (Number (get analysis (lit ''omega_3_g''))) (Num (Fin 0))),
        (lit ''omega_6_g'', js_or (Number (get analysis (lit ''omega_6_g''))) (Num (Fin 0))),
        (lit ''soluble_fiber_g'',
           js_or (Number (get analysis (lit ''soluble_fiber_g''))) (Num (Fin 0))),
        (lit ''insoluble_fiber_g'',
           js_or (Number (get analysis (lit ''insoluble_fiber_g''))) (Num (Fin 0))),
        (lit ''cholesterol_mg'',
           js_or (Number (get analysis (lit ''cholesterol_mg''))) (Num (Fin 0))),
        (lit ''alcohol_g'', js_or (Number (get analysis (lit ''alcohol_g''))) (Num (Fin 0))),
        (lit ''caffeine_mg'', js_or (Number (get analysis (lit ''caffeine_mg''))) (Num (Fin 0))),
        (lit ''liquids_ml'', js_or (Number (get analysis (lit ''liquids_ml''))) (Num (Fin 0))),
        (lit ''serving_size_g'',
           js_or (Number (get analysis (lit ''serving_size_g''))) (Num (Fin 100))),
        (lit ''glycemic_index'',
           if ToBoolean (get analysis (lit ''glycemic_index''))
           then Number (get analysis (lit ''glycemic_index'')) else Null),
        (lit ''insulin_index'',
           if ToBoolean (get analysis (lit ''insulin_index''))
           then Number (get analysis (lit ''insulin_index'')) else Null),
        (lit ''food_category'', js_or (get analysis (lit ''food_category'')) (Str (lit ''Mixed''))),
        (lit ''processing_level'',
           js_or (get analysis (lit ''processing_level'')) (Str (lit ''Moderate''))),
        (lit ''cooking_method'', js_or (get analysis (lit ''cooking_method'')) (Str (lit ''Mixed''))),
        (lit ''health_risk_notes'', js_or (get analysis (lit ''health_risk_notes'')) (Str [])),
        (lit ''confidence'', js_or (Number (get analysis (lit ''confidence''))) (Num (Fin 75))),
        (lit ''ingredients'',
           case get analysis (lit ''ingredients'') of Arr xs \<Rightarrow> Arr xs | _ \<Rightarrow> Arr []),
        (lit ''healthNotes'',
           js_or (js_or (get analysis (lit ''healthNotes'')) (get analysis (lit ''recommendations'')))
             (Str [])),
        (lit ''recommendations'',
           js_or (js_or (get analysis (lit ''recommendations'')) (get analysis (lit ''healthNotes'')))
             (Str [])),
        (lit ''meal_name'', js_or (get analysis (lit ''name'')) (Str (lit ''Unknown Meal''))),
        (lit ''protein_g'', js_or (Number (get analysis (lit ''protein''))) (Num (Fin 0))),
        (lit ''carbs_g'', js_or (Number (get analysis (lit ''carbs''))) (Num (Fin 0))),
        (lit ''fats_g'', js_or (Number (get analysis (lit ''fat''))) (Num (Fin 0))),
        (lit ''fiber_g'', js_or (Number (get analysis (lit ''fiber''))) (Num (Fin 0))),
        (lit ''sugar_g'', js_or (Number (get analysis (lit ''sugar''))) (Num (Fin 0))),
        (lit ''sodium_mg'', js_or (Number (get analysis (lit ''sodium''))) (Num (Fin 0)))]"

text \<open>
  The first read, \<open>analysis.name\<close>, raises when \<open>analysis\<close> is \<open>null\<close> or \<open>undefined\<close>,
  and a call of \<open>Number\<close> raises when its argument does not convert (for the two index
  fields the call is made for a truthy argument only, and every argument that does not
  convert is truthy). Otherwise the object literal is returned.
\<close>

definition normalizeAnalysisResponse :: "jsval \<Rightarrow> thrown + jsval" where
  "normalizeAnalysisResponse analysis =
     (if nullish analysis then Inl TypeError
      else if list_ex (\<lambda>k. no_primitive (get analysis (lit k))) Number_arguments
      then Inl TypeError
      else Inr (normalized analysis))"

subsection \<open>The fallback record\<close>

definition getFallbackAnalysis :: "jsstring \<Rightarrow> jsval" where
  "getFallbackAnalysis language =
     (let isHebrew = (language = lit ''hebrew'')
      in Obj
      [(lit ''name'', Str (if isHebrew
               then [0x5D0, 0x5E8, 0x5D5, 0x5D7, 0x5D4, 0x20, 0x5DE, 0x5E0, 0x5D5, 0x5EA, 0x5D7,
                     0x5EA]
               else lit ''Analyzed Meal'')),
       (lit ''description'', Str (if isHebrew
               then [0x5E0, 0x5D9, 0x5EA, 0x5D5, 0x5D7, 0x20, 0x5D1, 0x5E1, 0x5D9, 0x5E1, 0x5D9,
                     0x20, 0x5E9, 0x5DC, 0x20, 0x5D4, 0x5D0, 0x5E8, 0x5D5, 0x5D7, 0x5D4]
               else lit ''Basic meal analysis'')),
       (lit ''calories'', Num (Fin 400)),
       (lit ''protein'', Num (Fin 25)),
       (lit ''carbs'', Num (Fin 45)),
       (lit ''fat'', Num (Fin 15)),
       (lit ''fiber'', Num (Fin 8)),
       (lit ''sugar'', Num (Fin 10)),
       (lit ''sodium'', Num (Fin 600)),
       (lit ''saturated_fats_g'', Num (Fin 5)),
       (lit ''polyunsaturated_fats_g'', Num (Fin 3)),
       (lit ''monounsaturated_fats_g'', Num (Fin 7)),
       (lit ''omega_3_g'', Num (Fin 1)),
       (lit ''omega_6_g'', Num (Fin 2)),
       (lit ''soluble_fiber_g'', Num (Fin 4)),
       (lit ''insoluble_fiber_g'', Num (Fin 4)),
       (lit ''cholesterol_mg'', Num (Fin 50)),
       (lit ''alcohol_g'', Num (Fin 0)),
       (lit ''caffeine_mg'', Num (Fin 0)),
       (lit ''liquids_ml'', Num (Fin 200)),
       (lit ''serving_size_g'', Num (Fin 250)),
       (lit ''glycemic_index'', Num (Fin 55)),
       (lit ''insulin_index'', Num (Fin 45)),
       (lit ''food_category'', Str (if isHebrew
               then [0x5DE, 0x5E2, 0x5D5, 0x5E8, 0x5D1]
               else lit ''Mixed'')),
       (lit ''processing_level'', Str (if isHebrew
               then [0x5D1, 0x5D9, 0x5E0, 0x5D5, 0x5E0, 0x5D9]
               else lit ''Moderate'')),
       (lit ''cooking_method'', Str (if isHebrew
               then [0x5DE, 0x5E2, 0x5D5, 0x5E8, 0x5D1]
               else lit ''Mixed'')),
       (lit ''health_risk_notes'', Str []),
       (lit ''confidence'', Num (Fin 70)),
       (lit ''ingredients'',
         Arr
          [Obj
             [(lit ''name'', Str (if isHebrew
                      then [0x5DE, 0x5E8, 0x5DB, 0x5D9, 0x5D1, 0x20, 0x5E2, 0x5D9, 0x5E7, 0x5E8,
                            0x5D9]
                      else lit ''Main ingredient'')),
              (lit ''calories'', Num (Fin 200)),
              (lit ''protein'', Num (Fin 15)),
              (lit ''carbs'', Num (Fin 25)),
              (lit ''fat'', Num (Fin 8)),
              (lit ''fiber'', Num (Fin 4)),
              (lit ''sugar'', Num (Fin 5)),
              (lit ''sodium_mg'', Num (Fin 300))],
           Obj
             [(lit ''name'', Str (if isHebrew
                      then [0x5DE, 0x5E8, 0x5DB, 0x5D9, 0x5D1, 0x20, 0x5DE, 0x5E9, 0x5E0, 0x5D9]
                      else lit ''Secondary ingredient'')),
              (lit ''calories'', Num (Fin 200)),
              (lit ''protein'', Num (Fin 10)),
              (lit ''carbs'', Num (Fin 20)),
              (lit ''fat'', Num (Fin 7)),
              (lit ''fiber'', Num (Fin 4)),
              (lit ''sugar'', Num (Fin 5)),
              (lit ''sodium_mg'', Num (Fin 300))]]),
       (lit ''healthNotes'', Str (if isHebrew
               then [0x5E0, 0x5D9, 0x5EA, 0x5D5, 0x5D7, 0x20, 0x5D1, 0x5E1, 0x5D9, 0x5E1,
                     0x5D9] @ lit '' - '' @ [0x5DC, 0x5EA, 0x5D5, 0x5E6, 0x5D0, 0x5D5, 0x5EA, 0x20,
                     0x5DE, 0x5D3, 0x5D5, 0x5D9, 0x5E7, 0x5D5, 0x5EA, 0x20, 0x5D9, 0x5D5, 0x5EA,
                     0x5E8] @ lit '', '' @ [0x5D4, 0x5D5, 0x5E1, 0x5E3, 0x20, 0x5DE, 0x5E4, 0x5EA,
                     0x5D7] @ lit '' OpenAI''
               else lit ''Basic analysis - for more accurate results, add OpenAI API key'')),
       (lit ''recommendations'', Str (if isHebrew
               then [0x5D4, 0x5DE, 0x5DC, 0x5E6, 0x5D5, 0x5EA, 0x20, 0x5DB, 0x5DC, 0x5DC, 0x5D9,
                     0x5D5, 0x5EA, 0x20, 0x5DC, 0x5EA, 0x5D6, 0x5D5, 0x5E0, 0x5D4, 0x20, 0x5D1,
                     0x5E8, 0x5D9, 0x5D0, 0x5D4]
               else lit ''General healthy nutrition recommendations'')),
       (lit ''meal_name'', Str (if isHebrew
               then [0x5D0, 0x5E8, 0x5D5, 0x5D7, 0x5D4, 0x20, 0x5DE, 0x5E0, 0x5D5, 0x5EA, 0x5D7,
                     0x5EA]
               else lit ''Analyzed Meal'')),
       (lit ''protein_g'', Num (Fin 25)),
       (lit ''carbs_g'', Num (Fin 45)),
       (lit ''fats_g'', Num (Fin 15)),
       (lit ''fiber_g'', Num (Fin 8)),
       (lit ''sugar_g'', Num (Fin 10)),
       (lit ''sodium_mg'', Num (Fin 600))])"

subsection \<open>The keyword update\<close>

text \<open>
  \<open>toLowerCase\<close> is the runtime's, with its Unicode case mapping, and is a parameter
  here. On ASCII text it is \<open>toLowerCase_ascii\<close>.
\<close>

definition toLowerCase_ascii :: "jsstring \<Rightarrow> jsstring" where
  "toLowerCase_ascii s = map (\<lambda>u. if 65 \<le> u \<and> u \<le> 90 then u + 32 else u) s"

text \<open>One keyword rule: \<open>updated.k = Math.round(updated.k * factor)\<close>.\<close>

definition scale :: "jsval \<Rightarrow> jsstring \<Rightarrow> rat \<Rightarrow> thrown + jsval" where
  "scale updated k factor =
     and_then (ToNumber (get updated k))
       (\<lambda>n. Inr (assign updated k (Num (Math_round (js_mul n (fl factor))))))"

text \<open>The conditions of the three rules, on the lowercased text.\<close>

definition more_protein :: "jsstring \<Rightarrow> bool" where
  "more_protein lowerUpdate \<longleftrightarrow>
     includes_js lowerUpdate (lit ''more protein'')
     \<or> includes_js lowerUpdate [0x5D7, 0x5DC, 0x5D1, 0x5D5, 0x5DF]"

definition less_calories :: "jsstring \<Rightarrow> bool" where
  "less_calories lowerUpdate \<longleftrightarrow>
     includes_js lowerUpdate (lit ''less calories'')
     \<or> includes_js lowerUpdate
          [0x5E4, 0x5D7, 0x5D5, 0x5EA, 0x20, 0x5E7, 0x5DC, 0x5D5, 0x5E8, 0x5D9, 0x5D5, 0x5EA]"

definition more_vegetables :: "jsstring \<Rightarrow> bool" where
  "more_vegetables lowerUpdate \<longleftrightarrow>
     includes_js lowerUpdate (lit ''more vegetables'')
     \<or> includes_js lowerUpdate [0x5D9, 0x5E8, 0x5E7, 0x5D5, 0x5EA]"

definition getBasicUpdate ::
  "(jsstring \<Rightarrow> jsstring) \<Rightarrow> jsval \<Rightarrow> jsstring \<Rightarrow> thrown + jsval" where
  "getBasicUpdate lower originalAnalysis updateText =
     (let updated = spread originalAnalysis;
          lowerUpdate = lower updateText
      in and_then
           (if more_protein lowerUpdate
            then and_then (scale updated (lit ''protein'') (12 / 10))
                   (\<lambda>updated. Inr (assign updated (lit ''protein_g'') (get updated (lit ''protein''))))
            else Inr updated)
        (\<lambda>updated. and_then
           (if less_calories lowerUpdate
            then scale updated (lit ''calories'') (8 / 10)
            else Inr updated)
        (\<lambda>updated. and_then
           (if more_vegetables lowerUpdate
            then and_then (scale updated (lit ''fiber'') (13 / 10))
                   (\<lambda>updated. Inr (assign updated (lit ''fiber_g'') (get updated (lit ''fiber''))))
            else Inr updated)
        (\<lambda>updated.
           (let updated = assign updated (lit ''healthNotes'')
                            (Str (lit ''Updated based on user input: '' @ updateText))
            in and_then (ToNumber (get updated (lit ''confidence'')))
                 (\<lambda>confidence.
                    Inr (assign updated (lit ''confidence'')
                          (Num (Math_max (Fin 50) (js_sub confidence (Fin 10)))))))))))"

subsection \<open>Prompts\<close>

text \<open>
  \<open>JSON.stringify\<close> is the runtime's and is a parameter of the functions that call it: it
  gives the text that the template embeds.
\<close>

definition basePrompt_he :: jsstring where
  \<open>basePrompt_he =
     concat
      [[0x5D0, 0x5EA, 0x5D4, 0x20, 0x5DE, 0x5E0, 0x5EA, 0x5D7, 0x20, 0x5EA, 0x5D6, 0x5D5, 0x5E0,
         0x5D4, 0x20, 0x5DE, 0x5D5, 0x5DE, 0x5D7, 0x5D4] @ lit ''. '' @ [0x5E0, 0x5EA, 0x5D7, 0x20,
         0x5D0, 0x5EA, 0x20, 0x5EA, 0x5DE, 0x5D5, 0x5E0, 0x5EA, 0x20, 0x5D4, 0x5D0, 0x5D5, 0x5DB,
         0x5DC, 0x20, 0x5D5, 0x5EA, 0x5DF, 0x20, 0x5E4, 0x5D9, 0x5E8, 0x5D5, 0x5D8, 0x20, 0x5EA,
         0x5D6, 0x5D5, 0x5E0, 0x5EA, 0x5D9, 0x20, 0x5DE, 0x5D3, 0x5D5, 0x5D9, 0x5E7]
         @ lit ''.\<newline>'',
       lit ''\<newline>'',
       [0x5D4, 0x5D7, 0x5D6, 0x5E8] @ lit '' JSON '' @ [0x5D1, 0x5E4, 0x5D5, 0x5E8, 0x5DE, 0x5D8,
         0x20, 0x5D4, 0x5D6, 0x5D4, 0x20, 0x5D1, 0x5D3, 0x5D9, 0x5D5, 0x5E7] @ lit '':\<newline>'',
       lit ''{\<newline>'',
       lit ''  "name": "'' @ [0x5E9, 0x5DD, 0x20, 0x5D4, 0x5DE, 0x5E0, 0x5D4]
         @ lit ''",\<newline>'',
       lit ''  "description": "'' @ [0x5EA, 0x5D9, 0x5D0, 0x5D5, 0x5E8, 0x20, 0x5E7, 0x5E6, 0x5E8]
         @ lit ''",\<newline>'',
       lit ''  "calories": '' @ [0x5DE, 0x5E1, 0x5E4, 0x5E8] @ lit '',\<newline>'',
       lit ''  "protein": '' @ [0x5DE, 0x5E1, 0x5E4, 0x5E8] @ lit '',\<newline>'',
       lit ''  "carbs": '' @ [0x5DE, 0x5E1, 0x5E4, 0x5E8] @ lit '',\<newline>'',
       lit ''  "fat": '' @ [0x5DE, 0x5E1, 0x5E4, 0x5E8] @ lit '',\<newline>'',
       lit ''  "fiber": '' @ [0x5DE, 0x5E1, 0x5E4, 0x5E8] @ lit '',\<newline>'',
       lit ''  "sugar": '' @ [0x5DE, 0x5E1, 0x5E4, 0x5E8] @ lit '',\<newline>'',
       lit ''  "sodium": '' @ [0x5DE, 0x5E1, 0x5E4, 0x5E8] @ lit '',\<newline>'',
       lit ''  "saturated_fats_g": '' @ [0x5DE, 0x5E1, 0x5E4, 0x5E8] @ lit '',\<newline>'',
       lit ''  "polyunsaturated_fats_g": '' @ [0x5DE, 0x5E1, 0x5E4, 0x5E8] @ lit '',\<newline>'',
       lit ''  "monounsaturated_fats_g": '' @ [0x5DE, 0x5E1, 0x5E4, 0x5E8] @ lit '',\<newline>'',
       lit ''  "omega_3_g": '' @ [0x5DE, 0x5E1, 0x5E4, 0x5E8] @ lit '',\<newline>'',
       lit ''  "omega_6_g": '' @ [0x5DE, 0x5E1, 0x5E4, 0x5E8] @ lit '',\<newline>'',
       lit ''  "soluble_fiber_g": '' @ [0x5DE, 0x5E1, 0x5E4, 0x5E8] @ lit '',\<newline>'',
       lit ''  "insoluble_fiber_g": '' @ [0x5DE, 0x5E1, 0x5E4, 0x5E8] @ lit '',\<newline>'',
       lit ''  "cholesterol_mg": '' @ [0x5DE, 0x5E1, 0x5E4, 0x5E8] @ lit '',\<newline>'',
       lit ''  "alcohol_g": '' @ [0x5DE, 0x5E1, 0x5E4, 0x5E8] @ lit '',\<newline>'',
       lit ''  "caffeine_mg": '' @ [0x5DE, 0x5E1, 0x5E4, 0x5E8] @ lit '',\<newline>'',
       lit ''  "liquids_ml": '' @ [0x5DE, 0x5E1, 0x5E4, 0x5E8] @ lit '',\<newline>'',
       lit ''  "serving_size_g": '' @ [0x5DE, 0x5E1, 0x5E4, 0x5E8] @ lit '',\<newline>'',
       lit ''  "glycemic_index": '' @ [0x5DE, 0x5E1, 0x5E4, 0x5E8] @ lit '',\<newline>'',
       lit ''  "insulin_index": '' @ [0x5DE, 0x5E1, 0x5E4, 0x5E8] @ lit '',\<newline>'',
       lit ''  "food_category": "'' @ [0x5E7, 0x5D8, 0x5D2, 0x5D5, 0x5E8, 0x5D9, 0x5D4]
         @ lit ''",\<newline>'',
       lit ''  "processing_level": "'' @ [0x5E8, 0x5DE, 0x5EA, 0x20, 0x5E2, 0x5D9, 0x5D1, 0x5D5,
         0x5D3] @ lit ''",\<newline>'',
       lit ''  "cooking_method": "'' @ [0x5E9, 0x5D9, 0x5D8, 0x5EA, 0x20, 0x5D4, 0x5DB, 0x5E0,
         0x5D4] @ lit ''",\<newline>'',
       lit ''  "health_risk_notes": "'' @ [0x5D4, 0x5E2, 0x5E8, 0x5D5, 0x5EA, 0x20, 0x5D1, 0x5E8,
         0x5D9, 0x5D0, 0x5D5, 0x5EA] @ lit ''",\<newline>'',
       lit ''  "confidence": '' @ [0x5DE, 0x5E1, 0x5E4, 0x5E8] @ lit '' (0-100),\<newline>'',
       lit ''  "ingredients": [\<newline>'',
       lit ''    {\<newline>'',
       lit ''      "name": "'' @ [0x5E9, 0x5DD, 0x20, 0x5D4, 0x5DE, 0x5E8, 0x5DB, 0x5D9, 0x5D1]
         @ lit ''",\<newline>'',
       lit ''      "calories": '' @ [0x5DE, 0x5E1, 0x5E4, 0x5E8] @ lit '',\<newline>'',
       lit ''      "protein": '' @ [0x5DE, 0x5E1, 0x5E4, 0x5E8] @ lit '',\<newline>'',
       lit ''      "carbs": '' @ [0x5DE, 0x5E1, 0x5E4, 0x5E8] @ lit '',\<newline>'',
       lit ''      "fat": '' @ [0x5DE, 0x5E1, 0x5E4, 0x5E8] @ lit '',\<newline>'',
       lit ''      "fiber": '' @ [0x5DE, 0x5E1, 0x5E4, 0x5E8] @ lit '',\<newline>'',
       lit ''      "sugar": '' @ [0x5DE, 0x5E1, 0x5E4, 0x5E8] @ lit '',\<newline>'',
       lit ''      "sodium_mg": '' @ [0x5DE, 0x5E1, 0x5E4, 0x5E8] @ lit ''\<newline>'',
       lit ''    }\<newline>'',
       lit ''  ],\<newline>'',
       lit ''  "healthNotes": "'' @ [0x5D4, 0x5E2, 0x5E8, 0x5D5, 0x5EA, 0x20, 0x5D1, 0x5E8, 0x5D9,
         0x5D0, 0x5D5, 0x5EA, 0x20, 0x5D5, 0x5D4, 0x5DE, 0x5DC, 0x5E6, 0x5D5, 0x5EA]
         @ lit ''",\<newline>'',
       lit ''  "recommendations": "'' @ [0x5D4, 0x5DE, 0x5DC, 0x5E6, 0x5D5, 0x5EA, 0x20, 0x5EA,
         0x5D6, 0x5D5, 0x5E0, 0x5EA, 0x5D9, 0x5D5, 0x5EA] @ lit ''"\<newline>'',
       lit ''}'']\<close>
definition basePrompt_en :: jsstring where
  \<open>basePrompt_en =
     concat
      [lit ''You are an expert nutrition analyst. Analyze the food image and provide ''
         @ lit ''detailed nutritional information.\<newline>'',
       lit ''\<newline>'',
       lit ''Return JSON in this exact format:\<newline>'',
       lit ''{\<newline>'',
       lit ''  "name": "Dish name",\<newline>'',
       lit ''  "description": "Brief description",\<newline>'',
       lit ''  "calories": number,\<newline>'',
       lit ''  "protein": number,\<newline>'',
       lit ''  "carbs": number,\<newline>'',
       lit ''  "fat": number,\<newline>'',
       lit ''  "fiber": number,\<newline>'',
       lit ''  "sugar": number,\<newline>'',
       lit ''  "sodium": number,\<newline>'',
       lit ''  "saturated_fats_g": number,\<newline>'',
       lit ''  "polyunsaturated_fats_g": number,\<newline>'',
       lit ''  "monounsaturated_fats_g": number,\<newline>'',
       lit ''  "omega_3_g": number,\<newline>'',
       lit ''  "omega_6_g": number,\<newline>'',
       lit ''  "soluble_fiber_g": number,\<newline>'',
       lit ''  "insoluble_fiber_g": number,\<newline>'',
       lit ''  "cholesterol_mg": number,\<newline>'',
       lit ''  "alcohol_g": number,\<newline>'',
       lit ''  "caffeine_mg": number,\<newline>'',
       lit ''  "liquids_ml": number,\<newline>'',
       lit ''  "serving_size_g": number,\<newline>'',
       lit ''  "glycemic_index": number,\<newline>'',
       lit ''  "insulin_index": number,\<newline>'',
       lit ''  "food_category": "category",\<newline>'',
       lit ''  "processing_level": "processing level",\<newline>'',
       lit ''  "cooking_method": "cooking method",\<newline>'',
       lit ''  "health_risk_notes": "health notes",\<newline>'',
       lit ''  "confidence": number (0-100),\<newline>'',
       lit ''  "ingredients": [\<newline>'',
       lit ''    {\<newline>'',
       lit ''      "name": "ingredient name",\<newline>'',
       lit ''      "calories": number,\<newline>'',
       lit ''      "protein": number,\<newline>'',
       lit ''      "carbs": number,\<newline>'',
       lit ''      "fat": number,\<newline>'',
       lit ''      "fiber": number,\<newline>'',
       lit ''      "sugar": number,\<newline>'',
       lit ''      "sodium_mg": number\<newline>'',
       lit ''    }\<newline>'',
       lit ''  ],\<newline>'',
       lit ''  "healthNotes": "Health notes and recommendations",\<newline>'',
       lit ''  "recommendations": "Nutritional recommendations"\<newline>'',
       lit ''}'']\<close>
definition basePrompt :: "bool \<Rightarrow> jsstring" where
  "basePrompt isHebrew = (if isHebrew then basePrompt_he else basePrompt_en)"

text \<open>An optional string argument is truthy when it is given and not empty.\<close>

fun truthy :: "jsstring option \<Rightarrow> bool" where
  "truthy None = False"
| "truthy (Some s) = (s \<noteq> [])"

text \<open>The two suffixes, in the language of the prompt.\<close>

definition updateText_suffix :: "bool \<Rightarrow> jsstring \<Rightarrow> jsstring" where
  "updateText_suffix isHebrew updateText =
     (if isHebrew
      then lit ''\<newline>\<newline>'' @ [0x5DE, 0x5D9, 0x5D3, 0x5E2, 0x20, 0x5E0, 0x5D5,
             0x5E1, 0x5E3, 0x20, 0x5DE, 0x5D4, 0x5DE, 0x5E9, 0x5EA, 0x5DE, 0x5E9]
           @ lit '': '' @ updateText
      else lit ''\<newline>\<newline>Additional user information: '' @ updateText)"

definition editedIngredients_suffix ::
  "(jsval \<Rightarrow> jsstring) \<Rightarrow> bool \<Rightarrow> jsval list \<Rightarrow> jsstring" where
  "editedIngredients_suffix stringify isHebrew editedIngredients =
     (if isHebrew
      then lit ''\<newline>\<newline>'' @ [0x5DE, 0x5E8, 0x5DB, 0x5D9, 0x5D1, 0x5D9, 0x5DD,
             0x20, 0x5E9, 0x5E2, 0x5E8, 0x5DA, 0x20, 0x5D4, 0x5DE, 0x5E9, 0x5EA, 0x5DE, 0x5E9]
           @ lit '': '' @ stringify (Arr editedIngredients)
      else lit ''\<newline>\<newline>User-edited ingredients: '' @ stringify (Arr editedIngredients))"

definition createAnalysisPrompt ::
  "(jsval \<Rightarrow> jsstring) \<Rightarrow> bool \<Rightarrow> jsstring option \<Rightarrow> jsval list \<Rightarrow> jsstring" where
  "createAnalysisPrompt stringify isHebrew updateText editedIngredients =
     (if truthy updateText
      then basePrompt isHebrew @ updateText_suffix isHebrew (the updateText)
      else if length editedIngredients > 0
      then basePrompt isHebrew @ editedIngredients_suffix stringify isHebrew editedIngredients
      else basePrompt isHebrew)"

definition createUpdatePrompt ::
  "(jsval \<Rightarrow> jsstring) \<Rightarrow> jsval \<Rightarrow> jsstring \<Rightarrow> bool \<Rightarrow> jsstring" where
  "createUpdatePrompt stringify_indented originalAnalysis updateText isHebrew =
     (if isHebrew
      then [0x5E2, 0x5D3, 0x5DB, 0x5DF, 0x20, 0x5D0, 0x5EA, 0x20, 0x5D4, 0x5E0, 0x5D9, 0x5EA,
              0x5D5, 0x5D7, 0x20, 0x5D4, 0x5EA, 0x5D6, 0x5D5, 0x5E0, 0x5EA, 0x5D9, 0x20, 0x5D4,
              0x5E7, 0x5D9, 0x5D9, 0x5DD, 0x20, 0x5D1, 0x5D4, 0x5EA, 0x5D1, 0x5E1, 0x5E1, 0x20,
              0x5E2, 0x5DC, 0x20, 0x5D4, 0x5DE, 0x5D9, 0x5D3, 0x5E2, 0x20, 0x5D4, 0x5D7, 0x5D3,
              0x5E9] @ lit ''.\<newline>\<newline>'' @ [0x5E0, 0x5D9, 0x5EA, 0x5D5, 0x5D7, 0x20,
              0x5E7, 0x5D9, 0x5D9, 0x5DD] @ lit '':\<newline>''
           @ stringify_indented originalAnalysis
           @ lit ''\<newline>\<newline>'' @ [0x5DE, 0x5D9, 0x5D3, 0x5E2, 0x20, 0x5D7, 0x5D3, 0x5E9,
              0x20, 0x5DE, 0x5D4, 0x5DE, 0x5E9, 0x5EA, 0x5DE, 0x5E9] @ lit '':\<newline>''
           @ updateText
           @ lit ''\<newline>\<newline>'' @ [0x5D4, 0x5D7, 0x5D6, 0x5E8] @ lit '' JSON '' @ [0x5DE,
              0x5E2, 0x5D5, 0x5D3, 0x5DB, 0x5DF, 0x20, 0x5D1, 0x5D0, 0x5D5, 0x5EA, 0x5D5, 0x20,
              0x5E4, 0x5D5, 0x5E8, 0x5DE, 0x5D8, 0x20, 0x5E9, 0x5DC, 0x20, 0x5D4, 0x5E0, 0x5D9,
              0x5EA, 0x5D5, 0x5D7, 0x20, 0x5D4, 0x5DE, 0x5E7, 0x5D5, 0x5E8, 0x5D9] @ lit ''.''
      else lit ''Update the existing nutritional analysis based on the new information.''
              @ lit ''\<newline>\<newline>Current analysis:\<newline>''
           @ stringify_indented originalAnalysis
           @ lit ''\<newline>\<newline>New user information:\<newline>''
           @ updateText
           @ lit ''\<newline>\<newline>Return updated JSON in the same format as the original analysis.'')"

subsection \<open>The provider and the environment\<close>

text \<open>
  The request of a chat completion and its result, as the client library types them. The
  client is a function from the request to the completion or to what it throws.
\<close>

datatype content_part = Text jsstring | Image_url (url: jsstring) (detail: jsstring)

datatype message_content = Plain jsstring | Parts "content_part list"

datatype request_message = Request_message (role: jsstring) (body: message_content)

record chat_request =
  model :: jsstring
  messages :: "request_message list"
  max_tokens :: jsnum
  temperature :: jsnum

datatype message = Message (content: "jsstring option")

datatype choice = Choice (message: message)

datatype chat_completion = Chat_completion (choices: "choice list")

text \<open>
  What the module takes from outside: the client \<open>openai\<close>, which is \<open>null\<close> when no key
  was configured; the variable \<open>OPENAI_API_KEY\<close> of the process environment; the two
  helpers imported from \<open>utils/openai\<close>; and the functions of the runtime named above.
\<close>

record env =
  openai :: "(chat_request \<Rightarrow> thrown + chat_completion) option"
  OPENAI_API_KEY :: "jsstring option"
  extractCleanJSON :: "jsstring \<Rightarrow> thrown + jsval"
  parsePartialJSON :: "jsval \<Rightarrow> thrown + jsval"
  JSON_stringify :: "jsval \<Rightarrow> jsstring"
  JSON_stringify_indented :: "jsval \<Rightarrow> jsstring"
  toLowerCase :: "jsstring \<Rightarrow> jsstring"

text \<open>\<open>response.choices[0]?.message?.content\<close>; \<open>None\<close> is \<open>null\<close> or \<open>undefined\<close>.\<close>

definition first_content :: "chat_completion \<Rightarrow> jsstring option" where
  "first_content response =
     (case choices response of [] \<Rightarrow> None | c # cs \<Rightarrow> content (message c))"

subsection \<open>Analysing an image\<close>

text \<open>The test of \<open>/^[A-Za-z0-9+/]*={0,2}$/\<close>.\<close>

definition base64_char :: "nat \<Rightarrow> bool" where
  "base64_char u \<longleftrightarrow>
     (65 \<le> u \<and> u \<le> 90) \<or> (97 \<le> u \<and> u \<le> 122) \<or> (48 \<le> u \<and> u \<le> 57) \<or> u = 43 \<or> u = 47"

definition base64Regex_test :: "jsstring \<Rightarrow> bool" where
  "base64Regex_test s =
     (let rest = dropWhile base64_char s in rest = [] \<or> rest = [61] \<or> rest = [61, 61])"

text \<open>
  \<open>imageBase64.split(",")[1]\<close> is \<open>undefined\<close> when the text has no comma; both uses of
  \<open>cleanBase64\<close>, the test of the expression and the template of the address, take its
  text, which is then \<open>undefined\<close>.
\<close>

definition text_of :: "jsstring option \<Rightarrow> jsstring" where
  "text_of s = (case s of None \<Rightarrow> lit ''undefined'' | Some t \<Rightarrow> t)"

definition cleanBase64 :: "jsstring \<Rightarrow> jsstring" where
  "cleanBase64 imageBase64 =
     (if startsWith imageBase64 (lit ''data:image/'')
      then text_of (case split_comma imageBase64 of p # q # ps \<Rightarrow> Some q | _ \<Rightarrow> None)
      else imageBase64)"

definition configured :: "env \<Rightarrow> bool" where
  "configured \<E> \<longleftrightarrow> openai \<E> \<noteq> None \<and> truthy (OPENAI_API_KEY \<E>)"

text \<open>The argument of \<open>openai.chat.completions.create\<close> in \<open>analyzeMealImage\<close>.\<close>

definition analysis_request :: "jsstring \<Rightarrow> bool \<Rightarrow> jsstring option \<Rightarrow> jsstring \<Rightarrow> chat_request" where
  "analysis_request systemPrompt isHebrew updateText clean =
     \<lparr>model = lit ''gpt-4o'',
      messages =
        [Request_message (lit ''system'') (Plain systemPrompt),
         Request_message (lit ''user'')
           (Parts
             [Text (if truthy updateText then the updateText
                    else if isHebrew
                    then [0x5E0, 0x5EA, 0x5D7, 0x20, 0x5D0, 0x5EA, 0x20, 0x5D4, 0x5EA, 0x5DE,
                           0x5D5, 0x5E0, 0x5D4, 0x20, 0x5D4, 0x5D6, 0x5D5, 0x20, 0x5E9, 0x5DC, 0x20,
                           0x5D4, 0x5D0, 0x5D5, 0x5DB, 0x5DC, 0x20, 0x5D5, 0x5EA, 0x5DF, 0x20,
                           0x5DC, 0x5D9, 0x20, 0x5E4, 0x5D9, 0x5E8, 0x5D5, 0x5D8, 0x20, 0x5EA,
                           0x5D6, 0x5D5, 0x5E0, 0x5EA, 0x5D9, 0x20, 0x5DE, 0x5D3, 0x5D5, 0x5D9,
                           0x5E7] @ lit ''.''
                    else lit ''Analyze this food image and provide detailed nutritional information.''),
              Image_url (lit ''data:image/jpeg;base64,'' @ clean) (lit ''high'')])],
      max_tokens = Fin 2000,
      temperature = fl (3 / 10)\<rparr>"

text \<open>The body of the \<open>try\<close> block, and the handler.\<close>

definition analyzeMealImage_try ::
  "env \<Rightarrow> jsstring \<Rightarrow> jsstring \<Rightarrow> jsstring option \<Rightarrow> jsval list \<Rightarrow> thrown + jsval" where
  "analyzeMealImage_try \<E> imageBase64 language updateText editedIngredients =
     (if \<not> configured \<E> then Inr (getFallbackAnalysis language)
      else if imageBase64 = [] \<or> trim imageBase64 = []
      then Inl (Error (lit ''Image data is required''))
      else if \<not> base64Regex_test (cleanBase64 imageBase64)
      then Inl (Error (lit ''Invalid base64 image format''))
      else
        (let isHebrew = (language = lit ''hebrew'');
             systemPrompt =
               createAnalysisPrompt (JSON_stringify \<E>) isHebrew updateText editedIngredients
         in and_then
              (the (openai \<E>)
                (analysis_request systemPrompt isHebrew updateText (cleanBase64 imageBase64)))
           (\<lambda>response.
              if \<not> truthy (first_content response)
              then Inl (Error (lit ''No response from OpenAI''))
              else and_then (extractCleanJSON \<E> (the (first_content response)))
           (\<lambda>cleanedJSON. and_then (parsePartialJSON \<E> cleanedJSON)
           (\<lambda>analysis. normalizeAnalysisResponse analysis)))))"

fun status :: "thrown \<Rightarrow> thrown + jsval" where
  "status (Raised v) = getProp v (lit ''status'')"
| "status e = Inr Undefined"

definition analyzeMealImage_catch :: "jsstring \<Rightarrow> thrown \<Rightarrow> thrown + jsval" where
  "analyzeMealImage_catch language error =
     and_then (status error)
       (\<lambda>s. if s = Num (Fin 400) then Inl (Error (lit ''Invalid image data or request format''))
            else if s = Num (Fin 401) then Inl (Error (lit ''OpenAI API authentication failed''))
            else if s = Num (Fin 429)
            then Inl (Error (lit ''OpenAI API rate limit exceeded. Please try again later.''))
            else if s = Num (Fin 500)
            then Inl (Error (lit ''OpenAI service temporarily unavailable''))
            else Inr (getFallbackAnalysis language))"

definition analyzeMealImage ::
  "env \<Rightarrow> jsstring \<Rightarrow> jsstring \<Rightarrow> jsstring option \<Rightarrow> jsval list \<Rightarrow> thrown + jsval" where
  "analyzeMealImage \<E> imageBase64 language updateText editedIngredients =
     (case analyzeMealImage_try \<E> imageBase64 language updateText editedIngredients of
        Inr analysis \<Rightarrow> Inr analysis
      | Inl error \<Rightarrow> analyzeMealImage_catch language error)"

subsection \<open>Updating an analysis\<close>

definition update_request :: "jsstring \<Rightarrow> bool \<Rightarrow> chat_request" where
  "update_request prompt isHebrew =
     \<lparr>model = lit ''gpt-4o'',
      messages =
        [Request_message (lit ''system'')
           (Plain (if isHebrew
                   then [0x5D0, 0x5EA, 0x5D4, 0x20, 0x5DE, 0x5E0, 0x5EA, 0x5D7, 0x20, 0x5EA,
                          0x5D6, 0x5D5, 0x5E0, 0x5D4, 0x20, 0x5DE, 0x5D5, 0x5DE, 0x5D7, 0x5D4]
                          @ lit ''. '' @ [0x5E2, 0x5D3, 0x5DB, 0x5DF, 0x20, 0x5D0, 0x5EA, 0x20,
                          0x5D4, 0x5E0, 0x5D9, 0x5EA, 0x5D5, 0x5D7, 0x20, 0x5D4, 0x5E7, 0x5D9,
                          0x5D9, 0x5DD, 0x20, 0x5D1, 0x5D4, 0x5EA, 0x5D1, 0x5E1, 0x5E1, 0x20, 0x5E2,
                          0x5DC, 0x20, 0x5D4, 0x5DE, 0x5D9, 0x5D3, 0x5E2, 0x20, 0x5D4, 0x5D7, 0x5D3,
                          0x5E9, 0x20, 0x5E9, 0x5D4, 0x5DE, 0x5E9, 0x5EA, 0x5DE, 0x5E9, 0x20, 0x5E1,
                          0x5D9, 0x5E4, 0x5E7] @ lit ''.''
                   else lit ''You are an expert nutrition analyst. Update the existing analysis based on ''
                     @ lit ''the new information provided by the user.'')),
         Request_message (lit ''user'') (Plain prompt)],
      max_tokens = Fin 1500,
      temperature = fl (2 / 10)\<rparr>"

definition updateMealAnalysis_try :: "env \<Rightarrow> jsval \<Rightarrow> jsstring \<Rightarrow> jsstring \<Rightarrow> thrown + jsval" where
  "updateMealAnalysis_try \<E> originalAnalysis updateText language =
     (if \<not> configured \<E> then getBasicUpdate (toLowerCase \<E>) originalAnalysis updateText
      else
        (let isHebrew = (language = lit ''hebrew'');
             prompt =
               createUpdatePrompt (JSON_stringify_indented \<E>) originalAnalysis updateText isHebrew
         in and_then (the (openai \<E>) (update_request prompt isHebrew))
           (\<lambda>response.
              if \<not> truthy (first_content response)
              then Inl (Error (lit ''No response from OpenAI''))
              else and_then (extractCleanJSON \<E> (the (first_content response)))
           (\<lambda>cleanedJSON. and_then (parsePartialJSON \<E> cleanedJSON)
           (\<lambda>updatedAnalysis. normalizeAnalysisResponse updatedAnalysis)))))"

definition updateMealAnalysis :: "env \<Rightarrow> jsval \<Rightarrow> jsstring \<Rightarrow> jsstring \<Rightarrow> thrown + jsval" where
  "updateMealAnalysis \<E> originalAnalysis updateText language =
     (case updateMealAnalysis_try \<E> originalAnalysis updateText language of
        Inr analysis \<Rightarrow> Inr analysis
      | Inl error \<Rightarrow> getBasicUpdate (toLowerCase \<E>) originalAnalysis updateText)"

section \<open>Example inputs\<close>

text \<open>
  An environment for the examples: the client given, a key when there is a client, and
  helpers that hand the text on and parse it to the empty object.
\<close>

definition example_env :: "(chat_request \<Rightarrow> thrown + chat_completion) option \<Rightarrow> env" where
  "example_env client =
     \<lparr>openai = client,
      OPENAI_API_KEY = (case client of None \<Rightarrow> None | Some c \<Rightarrow> Some (lit ''sk-test'')),
      extractCleanJSON = (\<lambda>s. Inr (Str s)),
      parsePartialJSON = (\<lambda>v. Inr (Obj [])),
      JSON_stringify = (\<lambda>v. lit ''[]''),
      JSON_stringify_indented = (\<lambda>v. lit ''{}''),
      toLowerCase = toLowerCase_ascii\<rparr>"

text \<open>A client whose call is rejected with the given value, and one that answers with a text.\<close>

definition failing_client :: "jsval \<Rightarrow> chat_request \<Rightarrow> thrown + chat_completion" where
  "failing_client error request = Inl (Raised error)"

definition answering_client :: "jsstring \<Rightarrow> chat_request \<Rightarrow> thrown + chat_completion" where
  "answering_client text request = Inr (Chat_completion [Choice (Message (Some text))])"

section \<open>Auxiliary facts\<close>

lemma lit_eq_iff [simp]: "lit a = lit b \<longleftrightarrow> a = b"
  by (simp add: lit_def inj_on_def)

lemma lit_eq_Nil [simp]: "lit s = [] \<longleftrightarrow> s = []"
  by (simp add: lit_def)

lemma Nil_eq_lit [simp]: "[] = lit s \<longleftrightarrow> s = []"
  by (simp add: lit_def)

lemma lit_append: "lit (a @ b) = lit a @ lit b"
  by (simp add: lit_def)

lemma js_or_not_NaN: "b \<noteq> Num NaN \<Longrightarrow> js_or a b \<noteq> Num NaN"
  by (auto simp: js_or_def)

lemma strict_equals_same: "v \<noteq> Num NaN \<Longrightarrow> strict_equals v v"
  by (cases v) auto

lemma fl_200: "fl 200 = Fin 200"
  by code_simp

lemma StringToNumber_200: "StringToNumber (lit ''200'') = Fin 200"
  by (simp add: StringToNumber_def trim_def is_white_space_def lit_def non_decimal_literal_def
      decimal_literal_def is_digit_def digit_in_def exponent_part_def pow10_def signed_def fl_200)

lemma StringToNumber_abc: "StringToNumber (lit ''abc'') = NaN"
  by (simp add: StringToNumber_def trim_def is_white_space_def lit_def non_decimal_literal_def
      decimal_literal_def is_digit_def digit_in_def exponent_part_def)

lemma normalize_Inr:
  "normalizeAnalysisResponse raw = Inr r \<longleftrightarrow>
   \<not> nullish raw \<and> \<not> list_ex (\<lambda>k. no_primitive (get raw (lit k))) Number_arguments
   \<and> r = normalized raw"
  by (auto simp add: normalizeAnalysisResponse_def)

text \<open>The fields of the object literal, read back.\<close>

lemma get_normalized:
  "get (normalized a) (lit ''name'') = js_or (get a (lit ''name'')) (Str (lit ''Unknown Meal''))"
  "get (normalized a) (lit ''description'') = js_or (get a (lit ''description'')) (Str [])"
  "get (normalized a) (lit ''calories'') = js_or (Number (get a (lit ''calories''))) (Num (Fin 0))"
  "get (normalized a) (lit ''protein'') = js_or (Number (get a (lit ''protein''))) (Num (Fin 0))"
  "get (normalized a) (lit ''carbs'') = js_or (Number (get a (lit ''carbs''))) (Num (Fin 0))"
  "get (normalized a) (lit ''fat'') = js_or (Number (get a (lit ''fat''))) (Num (Fin 0))"
  "get (normalized a) (lit ''fiber'') = js_or (Number (get a (lit ''fiber''))) (Num (Fin 0))"
  "get (normalized a) (lit ''sugar'') = js_or (Number (get a (lit ''sugar''))) (Num (Fin 0))"
  "get (normalized a) (lit ''sodium'') = js_or (Number (get a (lit ''sodium''))) (Num (Fin 0))"
  "get (normalized a) (lit ''saturated_fats_g'')
     = js_or (Number (get a (lit ''saturated_fats_g''))) (Num (Fin 0))"
  "get (normalized a) (lit ''polyunsaturated_fats_g'')
     = js_or (Number (get a (lit ''polyunsaturated_fats_g''))) (Num (Fin 0))"
  "get (normalized a) (lit ''monounsaturated_fats_g'')
     = js_or (Number (get a (lit ''monounsaturated_fats_g''))) (Num (Fin 0))"
  "get (normalized a) (lit ''omega_3_g'')
     = js_or (Number (get a (lit ''omega_3_g''))) (Num (Fin 0))"
  "get (normalized a) (lit ''omega_6_g'')
     = js_or (Number (get a (lit ''omega_6_g''))) (Num (Fin 0))"
  "get (normalized a) (lit ''soluble_fiber_g'')
     = js_or (Number (get a (lit ''soluble_fiber_g''))) (Num (Fin 0))"
  "get (normalized a) (lit ''insoluble_fiber_g'')
     = js_or (Number (get a (lit ''insoluble_fiber_g''))) (Num (Fin 0))"
  "get (normalized a) (lit ''cholesterol_mg'')
     = js_or (Number (get a (lit ''cholesterol_mg''))) (Num (Fin 0))"
  "get (normalized a) (lit ''alcohol_g'')
     = js_or (Number (get a (lit ''alcohol_g''))) (Num (Fin 0))"
  "get (normalized a) (lit ''caffeine_mg'')
     = js_or (Number (get a (lit ''caffeine_mg''))) (Num (Fin 0))"
  "get (normalized a) (lit ''liquids_ml'')
     = js_or (Number (get a (lit ''liquids_ml''))) (Num (Fin 0))"
  "get (normalized a) (lit ''serving_size_g'')
     = js_or (Number (get a (lit ''serving_size_g''))) (Num (Fin 100))"
  "get (normalized a) (lit ''glycemic_index'')
     = (if ToBoolean (get a (lit ''glycemic_index''))
        then Number (get a (lit ''glycemic_index'')) else Null)"
  "get (normalized a) (lit ''insulin_index'')
     = (if ToBoolean (get a (lit ''insulin_index''))
        then Number (get a (lit ''insulin_index'')) else Null)"
  "get (normalized a) (lit ''food_category'')
     = js_or (get a (lit ''food_category'')) (Str (lit ''Mixed''))"
  "get (normalized a) (lit ''processing_level'')
     = js_or (get a (lit ''processing_level'')) (Str (lit ''Moderate''))"
  "get (normalized a) (lit ''cooking_method'')
     = js_or (get a (lit ''cooking_method'')) (Str (lit ''Mixed''))"
  "get (normalized a) (lit ''health_risk_notes'')
     = js_or (get a (lit ''health_risk_notes'')) (Str [])"
  "get (normalized a) (lit ''confidence'')
     = js_or (Number (get a (lit ''confidence''))) (Num (Fin 75))"
  "get (normalized a) (lit ''ingredients'')
     = (case get a (lit ''ingredients'') of Arr xs \<Rightarrow> Arr xs | _ \<Rightarrow> Arr [])"
  "get (normalized a) (lit ''healthNotes'')
     = js_or (js_or (get a (lit ''healthNotes'')) (get a (lit ''recommendations''))) (Str [])"
  "get (normalized a) (lit ''recommendations'')
     = js_or (js_or (get a (lit ''recommendations'')) (get a (lit ''healthNotes''))) (Str [])"
  "get (normalized a) (lit ''meal_name'')
     = js_or (get a (lit ''name'')) (Str (lit ''Unknown Meal''))"
  "get (normalized a) (lit ''protein_g'') = js_or (Number (get a (lit ''protein''))) (Num (Fin 0))"
  "get (normalized a) (lit ''carbs_g'') = js_or (Number (get a (lit ''carbs''))) (Num (Fin 0))"
  "get (normalized a) (lit ''fats_g'') = js_or (Number (get a (lit ''fat''))) (Num (Fin 0))"
  "get (normalized a) (lit ''fiber_g'') = js_or (Number (get a (lit ''fiber''))) (Num (Fin 0))"
  "get (normalized a) (lit ''sugar_g'') = js_or (Number (get a (lit ''sugar''))) (Num (Fin 0))"
  "get (normalized a) (lit ''sodium_mg'') = js_or (Number (get a (lit ''sodium''))) (Num (Fin 0))"
  by (simp_all add: normalized_def)

lemma valid_number_js_or: "d \<noteq> NaN \<Longrightarrow> valid_number (js_or (Number v) (Num d))"
  by (simp add: js_or_def Number_def)

text \<open>
  What does hold of the types: the numeric fields guarded by \<open>||\<close> are numbers and not
  \<open>NaN\<close>, and \<open>ingredients\<close> is an array.
\<close>

lemma normalized_numbers:
  "list_all (\<lambda>k. valid_number (get (normalized a) (lit k)))
     [''calories'', ''protein'', ''carbs'', ''fat'', ''fiber'', ''sugar'', ''sodium'',
      ''saturated_fats_g'', ''polyunsaturated_fats_g'', ''monounsaturated_fats_g'',
      ''omega_3_g'', ''omega_6_g'', ''soluble_fiber_g'', ''insoluble_fiber_g'',
      ''cholesterol_mg'', ''alcohol_g'', ''caffeine_mg'', ''liquids_ml'', ''serving_size_g'',
      ''confidence'', ''protein_g'', ''carbs_g'', ''fats_g'', ''fiber_g'', ''sugar_g'',
      ''sodium_mg'']"
  by (simp add: get_normalized valid_number_js_or)

lemma normalized_ingredients: "\<exists>xs. get (normalized a) (lit ''ingredients'') = Arr xs"
  by (simp add: get_normalized split: jsval.split)

text \<open>A value converts unless a property \<open>toString\<close> is inside it.\<close>

lemma no_primitive_has_toString: "no_primitive v \<Longrightarrow> has_toString v"
  by (induction v rule: no_primitive.induct) (auto simp: list_ex_iff)

lemma has_toString_get: "has_toString v" if "has_toString (get v k)"
proof (cases v)
  case (Obj kvs)
  show ?thesis
  proof (cases "map_of kvs k")
    case None
    with Obj that show ?thesis by simp
  next
    case (Some x)
    then have "(k, x) \<in> set kvs"
      by (rule map_of_SomeD)
    moreover from Obj Some that have "has_toString x"
      by simp
    ultimately have "list_ex (\<lambda>p. has_toString (snd p)) kvs"
      unfolding list_ex_iff by force
    with Obj show ?thesis by simp
  qed
qed (use that in simp_all)

lemma getFallbackAnalysis_not_hebrew:
  "language \<noteq> lit ''hebrew'' \<Longrightarrow> getFallbackAnalysis language = getFallbackAnalysis (lit ''english'')"
  by (simp add: getFallbackAnalysis_def)

lemma get_update:
  "get (Obj (AList.update k v kvs)) k' = (if k' = k then v else get (Obj kvs) k')"
  by (simp add: update_conv')

lemma ToNumber_Num: "ToNumber (Num n) = Inr n"
  by (simp add: ToNumber_def)

lemma ToNumber_convertible: "\<not> no_primitive v \<Longrightarrow> ToNumber v = Inr (number_of v)"
  by (simp add: ToNumber_def)

lemma get_Num_Obj: "get v k = Num n \<Longrightarrow> \<exists>kvs. v = Obj kvs"
  by (cases v) auto

lemma spread_Obj: "\<exists>kvs. spread v = Obj kvs"
  by (cases v) auto

lemma includes_js_sublist: "includes_js s needle \<longleftrightarrow> sublist needle s"
  by (induction s) (simp_all add: sublist_Cons_right)

lemma includes_js_appendI: "includes_js (a @ needle @ b) needle"
  by (simp add: includes_js_sublist)

text \<open>The update returns whenever the four fields it computes with convert to numbers.\<close>

lemma getBasicUpdate_returns:
  assumes "\<not> no_primitive (get (spread original) (lit ''protein''))"
    and "\<not> no_primitive (get (spread original) (lit ''calories''))"
    and "\<not> no_primitive (get (spread original) (lit ''fiber''))"
    and "\<not> no_primitive (get (spread original) (lit ''confidence''))"
  shows "\<exists>r. getBasicUpdate lower original text = Inr r"
proof -
  obtain kvs where o: "spread original = Obj kvs"
    using spread_Obj by blast
  show ?thesis
    using assms unfolding o getBasicUpdate_def scale_def and_then_def Let_def
    by (simp add: get_update ToNumber_convertible del: get.simps)
qed

text \<open>The keywords in the texts of the examples.\<close>

lemma keywords_protein_only:
  "more_protein (toLowerCase_ascii (lit ''I want more protein please''))"
  "\<not> less_calories (toLowerCase_ascii (lit ''I want more protein please''))"
  "\<not> more_vegetables (toLowerCase_ascii (lit ''I want more protein please''))"
  by (simp_all add: more_protein_def less_calories_def more_vegetables_def toLowerCase_ascii_def
      lit_def)

lemma keywords_none:
  "\<not> more_protein (toLowerCase_ascii (lit ''anything''))"
  "\<not> less_calories (toLowerCase_ascii (lit ''anything''))"
  "\<not> more_vegetables (toLowerCase_ascii (lit ''anything''))"
  by (simp_all add: more_protein_def less_calories_def more_vegetables_def toLowerCase_ascii_def
      lit_def)

lemma keywords_calories_vegetables:
  "\<not> more_protein (toLowerCase_ascii (lit ''LESS calories, More Vegetables''))"
  "less_calories (toLowerCase_ascii (lit ''LESS calories, More Vegetables''))"
  "more_vegetables (toLowerCase_ascii (lit ''LESS calories, More Vegetables''))"
  by (simp_all add: more_protein_def less_calories_def more_vegetables_def toLowerCase_ascii_def
      lit_def)

text \<open>The update raises when a field that it computes with does not convert.\<close>

lemma getBasicUpdate_raises:
  "getBasicUpdate toLowerCase_ascii
     (Obj [(lit ''confidence'', Obj [(lit ''toString'', Null)])]) (lit ''anything'')
   = Inl TypeError"
  unfolding getBasicUpdate_def Let_def and_then_def
  by (simp add: keywords_none ToNumber_def)

lemma updateMealAnalysis_raises:
  "updateMealAnalysis (example_env None)
     (Obj [(lit ''confidence'', Obj [(lit ''toString'', Null)])]) (lit ''anything'')
     (lit ''english'')
   = Inl TypeError"
  by (simp add: updateMealAnalysis_def updateMealAnalysis_try_def configured_def example_env_def
      getBasicUpdate_raises)

text \<open>The examples: an image that passes validation, and a configured environment.\<close>

lemma example_image:
  "lit ''AAAA'' \<noteq> []" "trim (lit ''AAAA'') \<noteq> []" "base64Regex_test (cleanBase64 (lit ''AAAA''))"
  by (simp_all add: trim_def is_white_space_def lit_def cleanBase64_def startsWith_def
      base64Regex_test_def base64_char_def)

lemma configured_example: "configured (example_env (Some client))"
  by (simp add: configured_def example_env_def)

lemma failing_client_try:
  "analyzeMealImage_try (example_env (Some (failing_client error)))
     (lit ''AAAA'') (lit ''english'') None []
   = Inl (Raised error)"
  unfolding analyzeMealImage_try_def
  by (simp add: configured_example example_image and_then_def)
     (simp add: example_env_def failing_client_def)

text \<open>Arithmetic of the examples, in binary64; the factors 1.2 and 0.8 in lowest terms.\<close>

lemma round_10_times_1_2: "Math_round (js_mul (Fin 10) (fl (6 / 5))) = Fin 12"
  by code_simp

lemma round_100_times_0_8: "Math_round (js_mul (Fin 100) (fl (4 / 5))) = Fin 80"
  by code_simp

lemma round_5_times_1_3: "Math_round (js_mul (Fin 5) (fl (13 / 10))) = Fin 7"
  by code_simp

lemma max_50_80: "Math_max (Fin 50) (js_sub (Fin 80) (Fin 10)) = Fin 70"
  by code_simp

lemma max_50_55: "Math_max (Fin 50) (js_sub (Fin 55) (Fin 10)) = Fin 50"
  by code_simp

text \<open>The update of a record whose four fields are numbers, field by field.\<close>

lemma getBasicUpdate_numbers:
  assumes "get original (lit ''protein'') = Num p"
    and "get original (lit ''calories'') = Num c"
    and "get original (lit ''fiber'') = Num f"
    and "get original (lit ''confidence'') = Num q"
  shows "\<exists>r. getBasicUpdate lower original text = Inr r
     \<and> get r (lit ''protein'')
         = Num (if more_protein (lower text) then Math_round (js_mul p (fl (12 / 10))) else p)
     \<and> get r (lit ''protein_g'')
         = (if more_protein (lower text) then Num (Math_round (js_mul p (fl (12 / 10))))
            else get original (lit ''protein_g''))
     \<and> get r (lit ''calories'')
         = Num (if less_calories (lower text) then Math_round (js_mul c (fl (8 / 10))) else c)
     \<and> get r (lit ''fiber'')
         = Num (if more_vegetables (lower text) then Math_round (js_mul f (fl (13 / 10))) else f)
     \<and> get r (lit ''fiber_g'')
         = (if more_vegetables (lower text) then Num (Math_round (js_mul f (fl (13 / 10))))
            else get original (lit ''fiber_g''))
     \<and> get r (lit ''healthNotes'') = Str (lit ''Updated based on user input: '' @ text)
     \<and> get r (lit ''confidence'') = Num (Math_max (Fin 50) (js_sub q (Fin 10)))
     \<and> (\<forall>k. k \<notin> lit ` {''protein'', ''protein_g'', ''calories'', ''fiber'', ''fiber_g'',
                         ''healthNotes'', ''confidence''}
          \<longrightarrow> get r k = get original k)"
proof -
  from assms(1) obtain kvs where o: "original = Obj kvs"
    using get_Num_Obj by blast
  show ?thesis
    using assms unfolding o getBasicUpdate_def scale_def and_then_def Let_def
    by (simp add: get_update ToNumber_Num del: get.simps)
qed

section \<open>The claims\<close>

subsection \<open>C1: what the two entry points do with an error\<close>

text \<open>
  Claim C1 says that \<open>analyzeMealImage\<close> and \<open>updateMealAnalysis\<close> turn every error of
  their pipeline into the fallback record and never fail. The handler of
  \<open>analyzeMealImage\<close> first looks at the status of the error and throws a new error for
  400, 401, 429 and 500: with a configured provider whose call is rejected with status
  401 and a valid image, the caller gets the error "OpenAI API authentication failed".
\<close>

theorem provider_status_401_is_rethrown:
  "analyzeMealImage
     (example_env (Some (failing_client (Obj [(lit ''status'', Num (Fin 401))]))))
     (lit ''AAAA'') (lit ''english'') None []
   = Inl (Error (lit ''OpenAI API authentication failed''))"
  by (simp add: analyzeMealImage_def failing_client_try analyzeMealImage_catch_def getProp_def
      nullish_def and_then_def)

text \<open>
  C1, amended. \<open>analyzeMealImage\<close> catches every error of its pipeline. An error made
  with \<open>new Error\<close> in the pipeline (validation, empty response), a \<open>TypeError\<close> of the
  runtime and every thrown value whose \<open>status\<close> is none of 400, 401, 429 and 500 become
  \<open>getFallbackAnalysis(language)\<close>. A thrown value with status 400 is rethrown as the
  error "Invalid image data or request format", with 401 as "OpenAI API authentication
  failed", with 429 as "OpenAI API rate limit exceeded. Please try again later." and
  with 500 as "OpenAI service temporarily unavailable"; for a thrown \<open>null\<close> or
  \<open>undefined\<close> the read of its status raises a \<open>TypeError\<close>. Nothing else is thrown.
  \<open>updateMealAnalysis\<close> catches every error of its pipeline and hands back what
  \<open>getBasicUpdate\<close> gives, which is a record whenever the \<open>protein\<close>, \<open>calories\<close>,
  \<open>fiber\<close> and \<open>confidence\<close> of the original analysis convert to numbers
  (\<open>updateMealAnalysis_raises\<close> shows an original analysis for which it raises).
\<close>

theorem entry_points_error_handling:
  "(\<forall>error s. analyzeMealImage_try \<E> imageBase64 language updateText editedIngredients = Inl error
        \<and> status error = Inr s
        \<and> s \<notin> {Num (Fin 400), Num (Fin 401), Num (Fin 429), Num (Fin 500)}
      \<longrightarrow> analyzeMealImage \<E> imageBase64 language updateText editedIngredients
            = Inr (getFallbackAnalysis language))
   \<and> (\<forall>error. analyzeMealImage_try \<E> imageBase64 language updateText editedIngredients = Inl error
        \<and> status error \<in> Inr ` {Num (Fin 400), Num (Fin 401), Num (Fin 429), Num (Fin 500)}
      \<longrightarrow> (\<exists>m. analyzeMealImage \<E> imageBase64 language updateText editedIngredients
                 = Inl (Error m)))
   \<and> (\<forall>x. analyzeMealImage \<E> imageBase64 language updateText editedIngredients = Inl x
      \<longrightarrow> x \<in> {Error (lit ''Invalid image data or request format''),
               Error (lit ''OpenAI API authentication failed''),
               Error (lit ''OpenAI API rate limit exceeded. Please try again later.''),
               Error (lit ''OpenAI service temporarily unavailable''),
               TypeError})
   \<and> (\<forall>error. updateMealAnalysis_try \<E> originalAnalysis text language = Inl error
      \<longrightarrow> updateMealAnalysis \<E> originalAnalysis text language
            = getBasicUpdate (toLowerCase \<E>) originalAnalysis text)
   \<and> ((\<forall>k \<in> {''protein'', ''calories'', ''fiber'', ''confidence''}.
          \<not> no_primitive (get (spread originalAnalysis) (lit k)))
      \<longrightarrow> (\<exists>r. updateMealAnalysis \<E> originalAnalysis text language = Inr r))
   \<and> analyzeMealImage \<E> imageBase64 language updateText editedIngredients
     = (case analyzeMealImage_try \<E> imageBase64 language updateText editedIngredients of
          Inr analysis \<Rightarrow> Inr analysis
        | Inl (Error m) \<Rightarrow> Inr (getFallbackAnalysis language)
        | Inl TypeError \<Rightarrow> Inr (getFallbackAnalysis language)
        | Inl (Raised v) \<Rightarrow>
            if v = Null \<or> v = Undefined then Inl TypeError
            else if get v (lit ''status'') = Num (Fin 400)
            then Inl (Error (lit ''Invalid image data or request format''))
            else if get v (lit ''status'') = Num (Fin 401)
            then Inl (Error (lit ''OpenAI API authentication failed''))
            else if get v (lit ''status'') = Num (Fin 429)
            then Inl (Error (lit ''OpenAI API rate limit exceeded. Please try again later.''))
            else if get v (lit ''status'') = Num (Fin 500)
            then Inl (Error (lit ''OpenAI service temporarily unavailable''))
            else Inr (getFallbackAnalysis language))
   \<and> (\<forall>r. updateMealAnalysis_try \<E> originalAnalysis text language = Inr r
      \<longrightarrow> updateMealAnalysis \<E> originalAnalysis text language = Inr r)"
proof (intro conjI allI impI)
  fix error s
  assume "analyzeMealImage_try \<E> imageBase64 language updateText editedIngredients = Inl error
        \<and> status error = Inr s
        \<and> s \<notin> {Num (Fin 400), Num (Fin 401), Num (Fin 429), Num (Fin 500)}"
  then show "analyzeMealImage \<E> imageBase64 language updateText editedIngredients
            = Inr (getFallbackAnalysis language)"
    by (simp add: analyzeMealImage_def analyzeMealImage_catch_def and_then_def)
next
  fix error
  assume "analyzeMealImage_try \<E> imageBase64 language updateText editedIngredients = Inl error
        \<and> status error \<in> Inr ` {Num (Fin 400), Num (Fin 401), Num (Fin 429), Num (Fin 500)}"
  then show "\<exists>m. analyzeMealImage \<E> imageBase64 language updateText editedIngredients
                 = Inl (Error m)"
    by (auto simp add: analyzeMealImage_def analyzeMealImage_catch_def and_then_def)
next
  fix x
  assume x: "analyzeMealImage \<E> imageBase64 language updateText editedIngredients = Inl x"
  show "x \<in> {Error (lit ''Invalid image data or request format''),
               Error (lit ''OpenAI API authentication failed''),
               Error (lit ''OpenAI API rate limit exceeded. Please try again later.''),
               Error (lit ''OpenAI service temporarily unavailable''),
               TypeError}"
  proof (cases "analyzeMealImage_try \<E> imageBase64 language updateText editedIngredients")
    case (Inr r)
    with x show ?thesis
      by (simp add: analyzeMealImage_def)
  next
    case (Inl error)
    have "status error = Inl TypeError \<or> (\<exists>s. status error = Inr s)"
      by (cases error) (auto simp: getProp_def)
    with Inl x show ?thesis
      by (auto simp add: analyzeMealImage_def analyzeMealImage_catch_def and_then_def
          split: if_splits)
  qed
next
  fix error
  assume "updateMealAnalysis_try \<E> originalAnalysis text language = Inl error"
  then show "updateMealAnalysis \<E> originalAnalysis text language
            = getBasicUpdate (toLowerCase \<E>) originalAnalysis text"
    by (simp add: updateMealAnalysis_def)
next
  assume "\<forall>k \<in> {''protein'', ''calories'', ''fiber'', ''confidence''}.
          \<not> no_primitive (get (spread originalAnalysis) (lit k))"
  then have "\<exists>r. getBasicUpdate (toLowerCase \<E>) originalAnalysis text = Inr r"
    by (intro getBasicUpdate_returns) simp_all
  then show "\<exists>r. updateMealAnalysis \<E> originalAnalysis text language = Inr r"
    by (cases "updateMealAnalysis_try \<E> originalAnalysis text language")
       (auto simp add: updateMealAnalysis_def)
next
  show "analyzeMealImage \<E> imageBase64 language updateText editedIngredients
     = (case analyzeMealImage_try \<E> imageBase64 language updateText editedIngredients of
          Inr analysis \<Rightarrow> Inr analysis
        | Inl (Error m) \<Rightarrow> Inr (getFallbackAnalysis language)
        | Inl TypeError \<Rightarrow> Inr (getFallbackAnalysis language)
        | Inl (Raised v) \<Rightarrow>
            if v = Null \<or> v = Undefined then Inl TypeError
            else if get v (lit ''status'') = Num (Fin 400)
            then Inl (Error (lit ''Invalid image data or request format''))
            else if get v (lit ''status'') = Num (Fin 401)
            then Inl (Error (lit ''OpenAI API authentication failed''))
            else if get v (lit ''status'') = Num (Fin 429)
            then Inl (Error (lit ''OpenAI API rate limit exceeded. Please try again later.''))
            else if get v (lit ''status'') = Num (Fin 500)
            then Inl (Error (lit ''OpenAI service temporarily unavailable''))
            else Inr (getFallbackAnalysis language))"
  proof (cases "analyzeMealImage_try \<E> imageBase64 language updateText editedIngredients")
    case (Inr r)
    then show ?thesis
      by (simp add: analyzeMealImage_def)
  next
    case (Inl error)
    then show ?thesis
      by (cases error)
         (simp_all add: analyzeMealImage_def analyzeMealImage_catch_def and_then_def getProp_def
           nullish_def)
  qed
next
  fix r
  assume "updateMealAnalysis_try \<E> originalAnalysis text language = Inr r"
  then show "updateMealAnalysis \<E> originalAnalysis text language = Inr r"
    by (simp add: updateMealAnalysis_def)
qed

theorem entry_points_error_handling_witness:
  "analyzeMealImage
     (example_env (Some (failing_client (Obj [(lit ''status'', Num (Fin 503))]))))
     (lit ''AAAA'') (lit ''english'') None []
   = Inr (getFallbackAnalysis (lit ''english''))
   \<and> analyzeMealImage
       (example_env (Some (failing_client (Obj [(lit ''status'', Num (Fin 429))]))))
       (lit ''AAAA'') (lit ''english'') None []
     = Inl (Error (lit ''OpenAI API rate limit exceeded. Please try again later.''))
   \<and> analyzeMealImage (example_env (Some (failing_client Null)))
       (lit ''AAAA'') (lit ''english'') None []
     = Inl TypeError
   \<and> (\<exists>r. updateMealAnalysis
          (example_env (Some (failing_client (Obj [(lit ''status'', Num (Fin 503))]))))
          (Obj [(lit ''confidence'', Num (Fin 80))]) (lit ''more protein'') (lit ''english'')
        = Inr r)"
proof -
  let ?E = "\<lambda>v. example_env (Some (failing_client v))"
  let ?o = "Obj [(lit ''confidence'', Num (Fin 80))]"
  note rule = entry_points_error_handling [of _ "lit ''AAAA''" "lit ''english''" None "[]"
      ?o "lit ''more protein''"]
  have t: "analyzeMealImage_try (?E v) (lit ''AAAA'') (lit ''english'') None [] = Inl (Raised v)"
    for v
    by (rule failing_client_try)
  have "analyzeMealImage (?E (Obj [(lit ''status'', Num (Fin 503))]))
      (lit ''AAAA'') (lit ''english'') None []
    = Inr (getFallbackAnalysis (lit ''english''))"
    using rule [of "?E (Obj [(lit ''status'', Num (Fin 503))])"] by (simp add: t)
  moreover
  have "analyzeMealImage (?E (Obj [(lit ''status'', Num (Fin 429))]))
      (lit ''AAAA'') (lit ''english'') None []
    = Inl (Error (lit ''OpenAI API rate limit exceeded. Please try again later.''))"
    using rule [of "?E (Obj [(lit ''status'', Num (Fin 429))])"] by (simp add: t)
  moreover
  have "analyzeMealImage (?E Null) (lit ''AAAA'') (lit ''english'') None [] = Inl TypeError"
    using rule [of "?E Null"] by (simp add: t)
  moreover
  have "\<forall>k \<in> {''protein'', ''calories'', ''fiber'', ''confidence''}.
          \<not> no_primitive (get (spread ?o) (lit k))"
    by simp
  with rule [of "?E (Obj [(lit ''status'', Num (Fin 503))])"]
  have "\<exists>r. updateMealAnalysis (?E (Obj [(lit ''status'', Num (Fin 503))])) ?o
          (lit ''more protein'') (lit ''english'') = Inr r"
    by blast
  ultimately show ?thesis
    by simp
qed

subsection \<open>C2: validation errors\<close>

text \<open>
  Claim C2 says that, with a configured provider, an empty image payload or one that
  fails the base64 test makes \<open>analyzeMealImage\<close> throw a validation error to its caller.
  The error is thrown inside the \<open>try\<close> block and has no status, so the handler turns it
  into the fallback record: for the empty payload and for \<open>@@@\<close> the caller gets
  \<open>getFallbackAnalysis("english")\<close>.
\<close>

theorem invalid_image_gives_fallback:
  "analyzeMealImage (example_env (Some (answering_client (lit ''{}'')))) []
     (lit ''english'') None []
   = Inr (getFallbackAnalysis (lit ''english''))
   \<and> analyzeMealImage (example_env (Some (answering_client (lit ''{}'')))) (lit ''@@@'')
     (lit ''english'') None []
   = Inr (getFallbackAnalysis (lit ''english''))"
  by (simp add: analyzeMealImage_def analyzeMealImage_try_def analyzeMealImage_catch_def
      configured_example and_then_def trim_def is_white_space_def lit_def cleanBase64_def
      startsWith_def base64Regex_test_def base64_char_def)

text \<open>
  C2, amended: with a configured provider, an image payload that is empty, is only white
  space, or fails the base64 test raises a validation error inside \<open>analyzeMealImage\<close>
  ("Image data is required" or "Invalid base64 image format"), which the handler of the
  function catches and converts into \<open>getFallbackAnalysis(language)\<close>; the caller gets
  the fallback record and no error.
\<close>

theorem validation_errors_become_fallback:
  assumes "configured \<E>"
    and "imageBase64 = [] \<or> trim imageBase64 = [] \<or> \<not> base64Regex_test (cleanBase64 imageBase64)"
  shows "analyzeMealImage_try \<E> imageBase64 language updateText editedIngredients
           \<in> {Inl (Error (lit ''Image data is required'')),
              Inl (Error (lit ''Invalid base64 image format''))}
       \<and> analyzeMealImage \<E> imageBase64 language updateText editedIngredients
           = Inr (getFallbackAnalysis language)"
  using assms
  by (auto simp add: analyzeMealImage_def analyzeMealImage_try_def analyzeMealImage_catch_def
      and_then_def)

theorem validation_errors_become_fallback_witness:
  "configured (example_env (Some (answering_client (lit ''{}''))))
   \<and> \<not> base64Regex_test (cleanBase64 (lit ''@@@''))
   \<and> analyzeMealImage_try (example_env (Some (answering_client (lit ''{}'')))) (lit ''@@@'')
        (lit ''english'') None []
      = Inl (Error (lit ''Invalid base64 image format''))
   \<and> analyzeMealImage (example_env (Some (answering_client (lit ''{}'')))) (lit ''@@@'')
        (lit ''english'') None []
      = Inr (getFallbackAnalysis (lit ''english''))"
proof -
  have c: "configured (example_env (Some (answering_client (lit ''{}''))))"
    by (rule configured_example)
  have b: "\<not> base64Regex_test (cleanBase64 (lit ''@@@''))"
    by (simp add: lit_def cleanBase64_def startsWith_def base64Regex_test_def base64_char_def)
  have t: "lit ''@@@'' \<noteq> []" "trim (lit ''@@@'') \<noteq> []"
    by (simp_all add: trim_def is_white_space_def lit_def)
  from c b t validation_errors_become_fallback [OF c, of "lit ''@@@''" "lit ''english''" None "[]"]
  show ?thesis
    by (simp add: analyzeMealImage_try_def)
qed

subsection \<open>C3: the normaliser is not total\<close>

text \<open>
  Claim C3 says that \<open>normalizeAnalysisResponse\<close> returns a record for every input,
  the value \<open>null\<close> included. On \<open>null\<close> the first property read raises a
  \<open>TypeError\<close>, so the claim fails there.
\<close>

theorem normalize_null_raises:
  "normalizeAnalysisResponse Null = Inl TypeError"
  by (simp add: normalizeAnalysisResponse_def nullish_def)

text \<open>
  C3, amended: \<open>normalizeAnalysisResponse\<close> returns a record exactly when its input is
  neither \<open>null\<close> nor \<open>undefined\<close> and every field that it passes to \<open>Number\<close> converts,
  and raises a \<open>TypeError\<close> otherwise. So it returns a record for every other JSON value
  in which no object has a property named \<open>toString\<close>: objects with missing fields, with
  \<open>null\<close> fields and with fields of a wrong type, and strings, numbers, booleans and
  arrays.
\<close>

theorem normalize_returns_iff:
  "((\<exists>r. normalizeAnalysisResponse raw = Inr r) \<longleftrightarrow>
      raw \<noteq> Null \<and> raw \<noteq> Undefined
      \<and> (\<forall>k \<in> set Number_arguments. \<not> no_primitive (get raw (lit k))))
   \<and> (normalizeAnalysisResponse raw = Inr (normalized raw)
      \<or> normalizeAnalysisResponse raw = Inl TypeError)
   \<and> (raw \<noteq> Null \<and> raw \<noteq> Undefined \<and> \<not> has_toString raw
      \<longrightarrow> (\<exists>r. normalizeAnalysisResponse raw = Inr r))"
proof (intro conjI impI)
  show "(\<exists>r. normalizeAnalysisResponse raw = Inr r) \<longleftrightarrow>
      raw \<noteq> Null \<and> raw \<noteq> Undefined
      \<and> (\<forall>k \<in> set Number_arguments. \<not> no_primitive (get raw (lit k)))"
    by (auto simp add: normalizeAnalysisResponse_def nullish_def list_ex_iff)
  show "normalizeAnalysisResponse raw = Inr (normalized raw)
      \<or> normalizeAnalysisResponse raw = Inl TypeError"
    by (simp add: normalizeAnalysisResponse_def)
next
  assume "raw \<noteq> Null \<and> raw \<noteq> Undefined \<and> \<not> has_toString raw"
  moreover have "\<not> no_primitive (get raw k)" if "\<not> has_toString raw" for k
    using that no_primitive_has_toString has_toString_get by blast
  ultimately show "\<exists>r. normalizeAnalysisResponse raw = Inr r"
    by (simp add: normalizeAnalysisResponse_def nullish_def list_ex_iff)
qed

theorem normalize_returns_iff_witness:
  "(\<exists>r. normalizeAnalysisResponse
          (Obj [(lit ''calories'', Bool True), (lit ''ingredients'', Obj [(lit ''a'', Null)])])
        = Inr r)
   \<and> (\<exists>r. normalizeAnalysisResponse (Str (lit ''abc'')) = Inr r)
   \<and> (\<exists>r. normalizeAnalysisResponse (Arr []) = Inr r)
   \<and> \<not> (\<exists>r. normalizeAnalysisResponse Null = Inr r)
   \<and> \<not> (\<exists>r. normalizeAnalysisResponse
                (Obj [(lit ''calories'', Obj [(lit ''toString'', Null)])]) = Inr r)"
proof -
  have "\<exists>r. normalizeAnalysisResponse
          (Obj [(lit ''calories'', Bool True), (lit ''ingredients'', Obj [(lit ''a'', Null)])])
        = Inr r"
    by (rule normalize_returns_iff [THEN conjunct2, THEN conjunct2, rule_format]) simp
  moreover have "(\<exists>r. normalizeAnalysisResponse (Str (lit ''abc'')) = Inr r)
   \<and> (\<exists>r. normalizeAnalysisResponse (Arr []) = Inr r)
   \<and> \<not> (\<exists>r. normalizeAnalysisResponse Null = Inr r)
   \<and> \<not> (\<exists>r. normalizeAnalysisResponse
                (Obj [(lit ''calories'', Obj [(lit ''toString'', Null)])]) = Inr r)"
    by (simp add: normalize_returns_iff [THEN conjunct1] Number_arguments_def)
  ultimately show ?thesis by blast
qed

subsection \<open>C4: the types of the normalised fields\<close>

text \<open>
  Claim C4 says that in the record returned for any JSON input every descriptive field is
  a string and the two index fields are numbers or \<open>null\<close>. The function is written to
  "ensure all required fields exist with proper types", but a truthy value of a wrong
  type passes \<open>||\<close> unchanged, and the index fields lack the guard against \<open>NaN\<close> that
  the other numeric fields have: for the input
  \<open>{food_category: 42, glycemic_index: "abc"}\<close> the record has the number \<open>42\<close> as
  \<open>food_category\<close> and \<open>NaN\<close> as \<open>glycemic_index\<close>. The rest of the claim holds:
  \<open>normalized_numbers\<close> and \<open>normalized_ingredients\<close>.
\<close>

theorem wrong_typed_fields_pass_through:
  "\<exists>r. normalizeAnalysisResponse
          (Obj [(lit ''food_category'', Num (Fin 42)), (lit ''glycemic_index'', Str (lit ''abc''))])
        = Inr r
      \<and> get r (lit ''food_category'') = Num (Fin 42)
      \<and> get r (lit ''glycemic_index'') = Num NaN"
  by (simp add: normalize_Inr nullish_def Number_arguments_def get_normalized js_or_def Number_def
      StringToNumber_abc)

subsection \<open>C5: the alias fields\<close>

text \<open>
  Claim C5: in every record that \<open>normalizeAnalysisResponse\<close> returns, each alias field
  is equal (\<open>===\<close>) to its primary field: \<open>meal_name\<close> to \<open>name\<close>, \<open>protein_g\<close> to
  \<open>protein\<close>, \<open>carbs_g\<close> to \<open>carbs\<close>, \<open>fats_g\<close> to \<open>fat\<close>, \<open>fiber_g\<close> to \<open>fiber\<close>,
  \<open>sugar_g\<close> to \<open>sugar\<close> and \<open>sodium_mg\<close> to \<open>sodium\<close>.
\<close>

theorem alias_fields_equal_primary:
  assumes "normalizeAnalysisResponse raw = Inr r"
  shows "strict_equals (get r (lit ''meal_name'')) (get r (lit ''name''))
       \<and> strict_equals (get r (lit ''protein_g'')) (get r (lit ''protein''))
       \<and> strict_equals (get r (lit ''carbs_g'')) (get r (lit ''carbs''))
       \<and> strict_equals (get r (lit ''fats_g'')) (get r (lit ''fat''))
       \<and> strict_equals (get r (lit ''fiber_g'')) (get r (lit ''fiber''))
       \<and> strict_equals (get r (lit ''sugar_g'')) (get r (lit ''sugar''))
       \<and> strict_equals (get r (lit ''sodium_mg'')) (get r (lit ''sodium''))"
proof -
  from assms have r: "r = normalized raw"
    by (simp add: normalize_Inr)
  show ?thesis
    unfolding r by (simp add: get_normalized strict_equals_same js_or_not_NaN)
qed

theorem alias_fields_equal_primary_witness:
  "normalizeAnalysisResponse (Obj [(lit ''name'', Str (lit ''Soup'')), (lit ''protein'', Num (Fin 7))])
     = Inr (normalized (Obj [(lit ''name'', Str (lit ''Soup'')), (lit ''protein'', Num (Fin 7))]))
   \<and> strict_equals
        (get (normalized (Obj [(lit ''name'', Str (lit ''Soup'')), (lit ''protein'', Num (Fin 7))]))
          (lit ''meal_name''))
        (Str (lit ''Soup''))
   \<and> strict_equals
        (get (normalized (Obj [(lit ''name'', Str (lit ''Soup'')), (lit ''protein'', Num (Fin 7))]))
          (lit ''protein_g''))
        (Num (Fin 7))"
proof -
  let ?raw = "Obj [(lit ''name'', Str (lit ''Soup'')), (lit ''protein'', Num (Fin 7))]"
  have r: "normalizeAnalysisResponse ?raw = Inr (normalized ?raw)"
    by (simp add: normalize_Inr nullish_def Number_arguments_def)
  have "get (normalized ?raw) (lit ''name'') = Str (lit ''Soup'')"
    and "get (normalized ?raw) (lit ''protein'') = Num (Fin 7)"
    by (simp_all add: get_normalized js_or_def Number_def)
  with r alias_fields_equal_primary [OF r] show ?thesis
    by simp
qed

subsection \<open>C6: the keyword update\<close>

text \<open>
  Claim C6: for every original record whose \<open>protein\<close>, \<open>calories\<close>, \<open>fiber\<close> and
  \<open>confidence\<close> are numbers and every update text, \<open>getBasicUpdate\<close> applies its three
  rules independently on the lowercased text: "more protein" multiplies \<open>protein\<close> by 1.2,
  rounds it and copies it to \<open>protein_g\<close>; "less calories" multiplies \<open>calories\<close> by 0.8
  and rounds; "more vegetables" multiplies \<open>fiber\<close> by 1.3, rounds it and copies it to
  \<open>fiber_g\<close>. It always sets \<open>healthNotes\<close> to the fixed text followed by the update text
  and \<open>confidence\<close> to \<open>max(50, confidence - 10)\<close>, and leaves every other field as it
  was. In particular \<open>{calories: 100, protein: 10, fiber: 5, confidence: 80}\<close> with
  "I want more protein please" gives \<open>protein = 12\<close>, \<open>protein_g = 12\<close>, \<open>calories = 100\<close>
  and \<open>confidence = 70\<close>, and \<open>{confidence: 55}\<close> with "anything" gives
  \<open>confidence = 50\<close>.
\<close>

theorem getBasicUpdate_rules:
  "(\<forall>p c f q.
      get original (lit ''protein'') = Num p \<and> get original (lit ''calories'') = Num c
      \<and> get original (lit ''fiber'') = Num f \<and> get original (lit ''confidence'') = Num q
      \<longrightarrow> (\<exists>r. getBasicUpdate lower original text = Inr r
            \<and> get r (lit ''protein'')
                = Num (if more_protein (lower text)
                       then Math_round (js_mul p (fl (12 / 10))) else p)
            \<and> get r (lit ''protein_g'')
                = (if more_protein (lower text)
                   then Num (Math_round (js_mul p (fl (12 / 10))))
                   else get original (lit ''protein_g''))
            \<and> get r (lit ''calories'')
                = Num (if less_calories (lower text)
                       then Math_round (js_mul c (fl (8 / 10))) else c)
            \<and> get r (lit ''fiber'')
                = Num (if more_vegetables (lower text)
                       then Math_round (js_mul f (fl (13 / 10))) else f)
            \<and> get r (lit ''fiber_g'')
                = (if more_vegetables (lower text)
                   then Num (Math_round (js_mul f (fl (13 / 10))))
                   else get original (lit ''fiber_g''))
            \<and> get r (lit ''healthNotes'') = Str (lit ''Updated based on user input: '' @ text)
            \<and> get r (lit ''confidence'') = Num (Math_max (Fin 50) (js_sub q (Fin 10)))
            \<and> (\<forall>k. k \<notin> lit ` {''protein'', ''protein_g'', ''calories'', ''fiber'', ''fiber_g'',
                                ''healthNotes'', ''confidence''}
                 \<longrightarrow> get r k = get original k)))
   \<and> (\<exists>r. getBasicUpdate toLowerCase_ascii
            (Obj [(lit ''calories'', Num (Fin 100)), (lit ''protein'', Num (Fin 10)),
                  (lit ''fiber'', Num (Fin 5)), (lit ''confidence'', Num (Fin 80))])
            (lit ''I want more protein please'') = Inr r
        \<and> get r (lit ''protein'') = Num (Fin 12)
        \<and> get r (lit ''protein_g'') = Num (Fin 12)
        \<and> get r (lit ''calories'') = Num (Fin 100)
        \<and> get r (lit ''confidence'') = Num (Fin 70))
   \<and> (\<exists>r. getBasicUpdate toLowerCase_ascii (Obj [(lit ''confidence'', Num (Fin 55))])
            (lit ''anything'') = Inr r
        \<and> get r (lit ''confidence'') = Num (Fin 50))"
proof (intro conjI allI impI)
  fix p c f q
  assume "get original (lit ''protein'') = Num p \<and> get original (lit ''calories'') = Num c
      \<and> get original (lit ''fiber'') = Num f \<and> get original (lit ''confidence'') = Num q"
  then show "\<exists>r. getBasicUpdate lower original text = Inr r
            \<and> get r (lit ''protein'')
                = Num (if more_protein (lower text)
                       then Math_round (js_mul p (fl (12 / 10))) else p)
            \<and> get r (lit ''protein_g'')
                = (if more_protein (lower text)
                   then Num (Math_round (js_mul p (fl (12 / 10))))
                   else get original (lit ''protein_g''))
            \<and> get r (lit ''calories'')
                = Num (if less_calories (lower text)
                       then Math_round (js_mul c (fl (8 / 10))) else c)
            \<and> get r (lit ''fiber'')
                = Num (if more_vegetables (lower text)
                       then Math_round (js_mul f (fl (13 / 10))) else f)
            \<and> get r (lit ''fiber_g'')
                = (if more_vegetables (lower text)
                   then Num (Math_round (js_mul f (fl (13 / 10))))
                   else get original (lit ''fiber_g''))
            \<and> get r (lit ''healthNotes'') = Str (lit ''Updated based on user input: '' @ text)
            \<and> get r (lit ''confidence'') = Num (Math_max (Fin 50) (js_sub q (Fin 10)))
            \<and> (\<forall>k. k \<notin> lit ` {''protein'', ''protein_g'', ''calories'', ''fiber'', ''fiber_g'',
                                ''healthNotes'', ''confidence''}
                 \<longrightarrow> get r k = get original k)"
    using getBasicUpdate_numbers [of original p c f q lower "text"] by blast
next
  let ?original = "Obj [(lit ''calories'', Num (Fin 100)), (lit ''protein'', Num (Fin 10)),
                  (lit ''fiber'', Num (Fin 5)), (lit ''confidence'', Num (Fin 80))]"
  have "get ?original (lit ''protein'') = Num (Fin 10)"
    and "get ?original (lit ''calories'') = Num (Fin 100)"
    and "get ?original (lit ''fiber'') = Num (Fin 5)"
    and "get ?original (lit ''confidence'') = Num (Fin 80)"
    by simp_all
  from getBasicUpdate_numbers [OF this, of toLowerCase_ascii "lit ''I want more protein please''"]
  show "\<exists>r. getBasicUpdate toLowerCase_ascii ?original (lit ''I want more protein please'') = Inr r
        \<and> get r (lit ''protein'') = Num (Fin 12)
        \<and> get r (lit ''protein_g'') = Num (Fin 12)
        \<and> get r (lit ''calories'') = Num (Fin 100)
        \<and> get r (lit ''confidence'') = Num (Fin 70)"
    by (auto simp add: keywords_protein_only round_10_times_1_2 max_50_80)
next
  show "\<exists>r. getBasicUpdate toLowerCase_ascii (Obj [(lit ''confidence'', Num (Fin 55))])
            (lit ''anything'') = Inr r
        \<and> get r (lit ''confidence'') = Num (Fin 50)"
    unfolding getBasicUpdate_def Let_def and_then_def
    by (simp add: keywords_none ToNumber_Num max_50_55)
qed

theorem getBasicUpdate_rules_witness:
  "\<exists>r. getBasicUpdate toLowerCase_ascii
          (Obj [(lit ''calories'', Num (Fin 100)), (lit ''protein'', Num (Fin 10)),
                (lit ''fiber'', Num (Fin 5)), (lit ''confidence'', Num (Fin 80))])
          (lit ''LESS calories, More Vegetables'') = Inr r
      \<and> get r (lit ''protein'') = Num (Fin 10)
      \<and> get r (lit ''calories'') = Num (Fin 80)
      \<and> get r (lit ''fiber'') = Num (Fin 7)
      \<and> get r (lit ''fiber_g'') = Num (Fin 7)
      \<and> get r (lit ''healthNotes'')
          = Str (lit ''Updated based on user input: LESS calories, More Vegetables'')
      \<and> get r (lit ''confidence'') = Num (Fin 70)"
proof -
  let ?original = "Obj [(lit ''calories'', Num (Fin 100)), (lit ''protein'', Num (Fin 10)),
                  (lit ''fiber'', Num (Fin 5)), (lit ''confidence'', Num (Fin 80))]"
  have "get ?original (lit ''protein'') = Num (Fin 10) \<and> get ?original (lit ''calories'') = Num (Fin 100)
      \<and> get ?original (lit ''fiber'') = Num (Fin 5) \<and> get ?original (lit ''confidence'') = Num (Fin 80)"
    by simp
  with getBasicUpdate_rules [of ?original toLowerCase_ascii "lit ''LESS calories, More Vegetables''",
      THEN conjunct1, rule_format, of "Fin 10" "Fin 100" "Fin 5" "Fin 80"]
  show ?thesis
    by (auto simp add: keywords_calories_vegetables round_100_times_0_8 round_5_times_1_3
        max_50_80 lit_append [symmetric])
qed

subsection \<open>C7: two examples of normalisation\<close>

text \<open>
  Claim C7: for the empty object the record has \<open>calories = 0\<close>, \<open>protein = 0\<close>,
  \<open>serving_size_g = 100\<close>, \<open>confidence = 75\<close>, \<open>glycemic_index = null\<close>,
  \<open>food_category = "Mixed"\<close> and \<open>ingredients = []\<close>; and for any input whose
  \<open>calories\<close> is the string \<open>"200"\<close> and whose \<open>protein\<close> is \<open>null\<close>, the record has
  \<open>calories = 200\<close> and \<open>protein = 0\<close>, as for \<open>{calories: "200", protein: null}\<close>.
\<close>

theorem normalize_examples:
  "(\<exists>r. normalizeAnalysisResponse (Obj []) = Inr r
        \<and> get r (lit ''calories'') = Num (Fin 0)
        \<and> get r (lit ''protein'') = Num (Fin 0)
        \<and> get r (lit ''serving_size_g'') = Num (Fin 100)
        \<and> get r (lit ''confidence'') = Num (Fin 75)
        \<and> get r (lit ''glycemic_index'') = Null
        \<and> get r (lit ''food_category'') = Str (lit ''Mixed'')
        \<and> get r (lit ''ingredients'') = Arr [])
   \<and> (\<forall>raw r. get raw (lit ''calories'') = Str (lit ''200'') \<and> get raw (lit ''protein'') = Null
          \<and> normalizeAnalysisResponse raw = Inr r
        \<longrightarrow> get r (lit ''calories'') = Num (Fin 200) \<and> get r (lit ''protein'') = Num (Fin 0))
   \<and> (\<exists>r. normalizeAnalysisResponse
              (Obj [(lit ''calories'', Str (lit ''200'')), (lit ''protein'', Null)]) = Inr r)"
proof (intro conjI allI impI)
  have "normalizeAnalysisResponse (Obj []) = Inr (normalized (Obj []))"
    by (simp add: normalize_Inr nullish_def list_ex_iff)
  then show "\<exists>r. normalizeAnalysisResponse (Obj []) = Inr r
        \<and> get r (lit ''calories'') = Num (Fin 0)
        \<and> get r (lit ''protein'') = Num (Fin 0)
        \<and> get r (lit ''serving_size_g'') = Num (Fin 100)
        \<and> get r (lit ''confidence'') = Num (Fin 75)
        \<and> get r (lit ''glycemic_index'') = Null
        \<and> get r (lit ''food_category'') = Str (lit ''Mixed'')
        \<and> get r (lit ''ingredients'') = Arr []"
    by (simp add: get_normalized js_or_def Number_def)
next
  fix raw r
  assume h: "get raw (lit ''calories'') = Str (lit ''200'') \<and> get raw (lit ''protein'') = Null
          \<and> normalizeAnalysisResponse raw = Inr r"
  then have "r = normalized raw"
    by (simp add: normalize_Inr)
  with h show "get r (lit ''calories'') = Num (Fin 200)" and "get r (lit ''protein'') = Num (Fin 0)"
    by (simp_all add: get_normalized js_or_def Number_def StringToNumber_200)
next
  show "\<exists>r. normalizeAnalysisResponse
              (Obj [(lit ''calories'', Str (lit ''200'')), (lit ''protein'', Null)]) = Inr r"
    by (simp add: normalize_Inr nullish_def Number_arguments_def)
qed

theorem normalize_examples_witness:
  "\<exists>r. normalizeAnalysisResponse
           (Obj [(lit ''calories'', Str (lit ''200'')), (lit ''protein'', Null)]) = Inr r
      \<and> get r (lit ''calories'') = Num (Fin 200) \<and> get r (lit ''protein'') = Num (Fin 0)"
proof -
  let ?raw = "Obj [(lit ''calories'', Str (lit ''200'')), (lit ''protein'', Null)]"
  from normalize_examples obtain r where r: "normalizeAnalysisResponse ?raw = Inr r"
    by blast
  have "get ?raw (lit ''calories'') = Str (lit ''200'') \<and> get ?raw (lit ''protein'') = Null"
    by simp
  with r normalize_examples
  have "get r (lit ''calories'') = Num (Fin 200) \<and> get r (lit ''protein'') = Num (Fin 0)"
    by blast
  with r show ?thesis by blast
qed

subsection \<open>C8: one suffix at most\<close>

text \<open>
  Claim C8: \<open>createAnalysisPrompt\<close> appends at most one suffix to the base prompt: the
  update-text suffix when \<open>updateText\<close> is not empty, otherwise the edited-ingredients
  suffix when \<open>editedIngredients\<close> is not empty, otherwise nothing. In particular the
  prompt for \<open>english\<close>, "add more rice" and no edited ingredients contains
  "Additional user information: add more rice" and does not contain the
  edited-ingredients suffix.
\<close>

theorem createAnalysisPrompt_one_suffix:
  "createAnalysisPrompt stringify isHebrew updateText editedIngredients
     = basePrompt isHebrew
       @ (if truthy updateText then updateText_suffix isHebrew (the updateText)
          else if editedIngredients \<noteq> []
          then editedIngredients_suffix stringify isHebrew editedIngredients
          else [])
   \<and> includes_js (createAnalysisPrompt stringify (lit ''english'' = lit ''hebrew'')
          (Some (lit ''add more rice'')) [])
        (lit ''Additional user information: add more rice'')
   \<and> \<not> includes_js (createAnalysisPrompt stringify (lit ''english'' = lit ''hebrew'')
          (Some (lit ''add more rice'')) [])
          (lit ''User-edited ingredients: '')
   \<and> \<not> includes_js (createAnalysisPrompt stringify (lit ''english'' = lit ''hebrew'')
          (Some (lit ''add more rice'')) [])
          (editedIngredients_suffix stringify (lit ''english'' = lit ''hebrew'') [])"
proof (intro conjI)
  show "createAnalysisPrompt stringify isHebrew updateText editedIngredients
     = basePrompt isHebrew
       @ (if truthy updateText then updateText_suffix isHebrew (the updateText)
          else if editedIngredients \<noteq> []
          then editedIngredients_suffix stringify isHebrew editedIngredients
          else [])"
    by (simp add: createAnalysisPrompt_def)
  have p: "createAnalysisPrompt stringify (lit ''english'' = lit ''hebrew'')
          (Some (lit ''add more rice'')) []
      = basePrompt_en @ lit ''\<newline>\<newline>Additional user information: add more rice''"
    by (simp add: createAnalysisPrompt_def basePrompt_def updateText_suffix_def lit_def)
  have "lit ''\<newline>\<newline>Additional user information: add more rice''
      = lit ''\<newline>\<newline>'' @ lit ''Additional user information: add more rice'' @ []"
    by (simp add: lit_def)
  with p have "createAnalysisPrompt stringify (lit ''english'' = lit ''hebrew'')
          (Some (lit ''add more rice'')) []
      = (basePrompt_en @ lit ''\<newline>\<newline>'')
        @ lit ''Additional user information: add more rice'' @ []"
    by simp
  then show "includes_js (createAnalysisPrompt stringify (lit ''english'' = lit ''hebrew'')
          (Some (lit ''add more rice'')) [])
        (lit ''Additional user information: add more rice'')"
    using includes_js_appendI by metis
  have u: "85 \<notin> set (createAnalysisPrompt stringify (lit ''english'' = lit ''hebrew'')
          (Some (lit ''add more rice'')) [])"
    unfolding p by (simp add: basePrompt_en_def lit_def)
  show n: "\<not> includes_js (createAnalysisPrompt stringify (lit ''english'' = lit ''hebrew'')
          (Some (lit ''add more rice'')) [])
          (lit ''User-edited ingredients: '')"
  proof
    assume "includes_js (createAnalysisPrompt stringify (lit ''english'' = lit ''hebrew'')
          (Some (lit ''add more rice'')) [])
          (lit ''User-edited ingredients: '')"
    then have "set (lit ''User-edited ingredients: '')
        \<subseteq> set (createAnalysisPrompt stringify (lit ''english'' = lit ''hebrew'')
          (Some (lit ''add more rice'')) [])"
      unfolding includes_js_sublist by (rule set_mono_sublist)
    with u show False
      by (simp add: lit_def)
  qed
  have "editedIngredients_suffix stringify (lit ''english'' = lit ''hebrew'') []
      = lit ''\<newline>\<newline>'' @ lit ''User-edited ingredients: '' @ stringify (Arr [])"
    by (simp add: editedIngredients_suffix_def lit_def)
  moreover
  have "\<not> includes_js (createAnalysisPrompt stringify (lit ''english'' = lit ''hebrew'')
          (Some (lit ''add more rice'')) [])
          (lit ''\<newline>\<newline>'' @ lit ''User-edited ingredients: '' @ stringify (Arr []))"
  proof
    assume "includes_js (createAnalysisPrompt stringify (lit ''english'' = lit ''hebrew'')
          (Some (lit ''add more rice'')) [])
          (lit ''\<newline>\<newline>'' @ lit ''User-edited ingredients: '' @ stringify (Arr []))"
    then have "sublist (lit ''User-edited ingredients: '')
        (createAnalysisPrompt stringify (lit ''english'' = lit ''hebrew'')
          (Some (lit ''add more rice'')) [])"
      unfolding includes_js_sublist sublist_def by (metis append.assoc)
    with n show False
      by (simp add: includes_js_sublist)
  qed
  ultimately
  show "\<not> includes_js (createAnalysisPrompt stringify (lit ''english'' = lit ''hebrew'')
          (Some (lit ''add more rice'')) [])
          (editedIngredients_suffix stringify (lit ''english'' = lit ''hebrew'') [])"
    by simp
qed

theorem createAnalysisPrompt_one_suffix_witness:
  "createAnalysisPrompt (\<lambda>v. lit ''[{}]'') False (Some (lit ''add more rice'')) [Obj []]
     = basePrompt_en @ lit ''\<newline>\<newline>Additional user information: add more rice''
   \<and> createAnalysisPrompt (\<lambda>v. lit ''[{}]'') False None [Obj []]
     = basePrompt_en @ lit ''\<newline>\<newline>User-edited ingredients: [{}]''
   \<and> createAnalysisPrompt (\<lambda>v. lit ''[{}]'') False (Some []) []
     = basePrompt_en"
  using createAnalysisPrompt_one_suffix
          [of "\<lambda>v. lit ''[{}]''" False "Some (lit ''add more rice'')" "[Obj []]"]
        createAnalysisPrompt_one_suffix [of "\<lambda>v. lit ''[{}]''" False None "[Obj []]"]
        createAnalysisPrompt_one_suffix [of "\<lambda>v. lit ''[{}]''" False "Some []" "[]"]
  by (simp add: basePrompt_def updateText_suffix_def editedIngredients_suffix_def lit_def)

subsection \<open>C9: unsupported locales\<close>

text \<open>
  Claim C9: for every locale other than \<open>hebrew\<close>, unsupported ones and the empty string
  included, the analysis prompt is the one produced for \<open>english\<close>; indeed the whole
  analysis then behaves as for \<open>english\<close>.
\<close>

theorem unsupported_locale_is_english:
  assumes "language \<noteq> lit ''hebrew''"
  shows "createAnalysisPrompt stringify (language = lit ''hebrew'') updateText editedIngredients
     = createAnalysisPrompt stringify (lit ''english'' = lit ''hebrew'') updateText editedIngredients
   \<and> analyzeMealImage \<E> imageBase64 language updateText editedIngredients
     = analyzeMealImage \<E> imageBase64 (lit ''english'') updateText editedIngredients"
proof -
  have h: "(language = lit ''hebrew'') = (lit ''english'' = lit ''hebrew'')"
    using assms by simp
  have fb: "getFallbackAnalysis language = getFallbackAnalysis (lit ''english'')"
    using assms by (rule getFallbackAnalysis_not_hebrew)
  show ?thesis
    by (simp only: analyzeMealImage_def analyzeMealImage_try_def analyzeMealImage_catch_def h fb)
qed

theorem unsupported_locale_is_english_witness:
  "lit ''french'' \<noteq> lit ''hebrew'' \<and> [] \<noteq> lit ''hebrew''
   \<and> createAnalysisPrompt (\<lambda>v. lit ''[]'') (lit ''french'' = lit ''hebrew'') None []
     = createAnalysisPrompt (\<lambda>v. lit ''[]'') (lit ''english'' = lit ''hebrew'') None []
   \<and> createAnalysisPrompt (\<lambda>v. lit ''[]'') ([] = lit ''hebrew'') None []
     = createAnalysisPrompt (\<lambda>v. lit ''[]'') (lit ''english'' = lit ''hebrew'') None []
   \<and> createAnalysisPrompt (\<lambda>v. lit ''[]'') (lit ''french'' = lit ''hebrew'') None []
     = basePrompt_en"
  using unsupported_locale_is_english [of "lit ''french''" "\<lambda>v. lit ''[]''" None "[]"]
    unsupported_locale_is_english [of "[]" "\<lambda>v. lit ''[]''" None "[]"]
  by (simp add: createAnalysisPrompt_def basePrompt_def)

subsection \<open>C10: no provider, no validation\<close>

text \<open>
  Claim C10: when the provider is not configured (no client or no API key),
  \<open>analyzeMealImage\<close> returns \<open>getFallbackAnalysis(language)\<close> for every image payload,
  an empty one and one that is not base64 included, and raises no validation error.
\<close>

theorem unconfigured_returns_fallback:
  "\<not> configured \<E> \<Longrightarrow>
   analyzeMealImage \<E> imageBase64 language updateText editedIngredients
     = Inr (getFallbackAnalysis language)"
  by (simp add: analyzeMealImage_def analyzeMealImage_try_def)

theorem unconfigured_returns_fallback_witness:
  "\<not> configured (example_env None)
   \<and> analyzeMealImage (example_env None) [] (lit ''english'') None []
       = Inr (getFallbackAnalysis (lit ''english''))
   \<and> analyzeMealImage (example_env None) (lit ''not base64!'') (lit ''english'') None []
       = Inr (getFallbackAnalysis (lit ''english''))"
  using unconfigured_returns_fallback [of "example_env None"]
  by (simp add: configured_def example_env_def)

end
